theory Spec2Isabelle
  imports Complex_Main
begin

section \<open>Values of the trip page script\<close>

text \<open>
  The script \<^verbatim>\<open>js/trip.js\<close> works on whatever \<^verbatim>\<open>JSON.parse\<close> delivers: the
  trip metadata, the day entries and the day geometry are untyped JavaScript values.
  A value is modelled as it is at run time. \<open>JUndefined\<close> is the result of reading a
  property that is not there; it never occurs inside a parsed document. An object is
  the list of its own properties; reading takes the first binding of a key.

  A number is an IEEE double: \<open>JNum x\<close> is the finite double of value \<open>x\<close>, \<open>JPosInf\<close>
  and \<open>JNegInf\<close> are the infinities (a literal beyond the range of doubles, such as
  \<^verbatim>\<open>1e999\<close>, parses to one) and \<open>JNaN\<close> is the result of an undefined operation,
  which no parsed document holds. The sign of a zero is not modelled.
\<close>

datatype json =
    JUndefined
  | JNull
  | JBool bool
  | JNum real
  | JPosInf
  | JNegInf
  | JNaN
  | JStr string
  | JArr "json list"
  | JObj "(string \<times> json) list"

text \<open>
  The message of a caught or uncaught error. The text of a \<^verbatim>\<open>TypeError\<close> raised by
  the engine is engine specific and is not modelled; \<open>HttpMsg s\<close> is the message
  \<^verbatim>\<open>HTTP ${res.status}\<close> of a day, \<open>HttpFetchingMsg s\<close> the message
  \<^verbatim>\<open>HTTP ${res.status} fetching ${metaUrl}\<close> of the metadata; \<open>EnvMsg m\<close> is a message chosen by the environment (a
  rejected \<^verbatim>\<open>fetch\<close>, a body that is not JSON, an error of a function that is not part
  of the script).
\<close>

datatype err_msg = TypeErrorMsg | HttpMsg nat | HttpFetchingMsg nat | EnvMsg string

text \<open>A computation that may throw returns \<open>Inl\<close> of the message.\<close>

definition bind_err :: "err_msg + 'a \<Rightarrow> ('a \<Rightarrow> err_msg + 'b) \<Rightarrow> err_msg + 'b" where
  "bind_err m f = (case m of Inl e \<Rightarrow> Inl e | Inr v \<Rightarrow> f v)"

text \<open>
  JavaScript truthiness, \<^verbatim>\<open>a || b\<close> and \<^verbatim>\<open>a != null\<close>. A number is falsy when it
  is 0 or \<^verbatim>\<open>NaN\<close>.
\<close>

fun truthy :: "json \<Rightarrow> bool" where
  "truthy JUndefined = False"
| "truthy JNull = False"
| "truthy (JBool b) = b"
| "truthy (JNum x) = (x \<noteq> 0)"
| "truthy JPosInf = True"
| "truthy JNegInf = True"
| "truthy JNaN = False"
| "truthy (JStr s) = (s \<noteq> [])"
| "truthy (JArr xs) = True"
| "truthy (JObj kvs) = True"

definition js_or :: "json \<Rightarrow> json \<Rightarrow> json" where
  "js_or a b = (if truthy a then a else b)"

fun not_nullish :: "json \<Rightarrow> bool" where
  "not_nullish JUndefined = False"
| "not_nullish JNull = False"
| "not_nullish v = True"

text \<open>
  Reading a named property \<^verbatim>\<open>v.k\<close>. Reading from \<^verbatim>\<open>null\<close> or \<^verbatim>\<open>undefined\<close>
  throws a \<^verbatim>\<open>TypeError\<close>. The equations are those of the property names the script
  reads (\<^verbatim>\<open>type\<close>, \<^verbatim>\<open>features\<close>, \<^verbatim>\<open>geometry\<close>, \<^verbatim>\<open>coordinates\<close>, \<^verbatim>\<open>properties\<close>,
  \<^verbatim>\<open>day\<close>, \<^verbatim>\<open>distance_miles\<close>, \<^verbatim>\<open>elevation_gain_ft\<close>, \<^verbatim>\<open>file\<close>, \<^verbatim>\<open>length\<close> and the
  metadata fields): none of them but \<^verbatim>\<open>length\<close> is defined on a built-in prototype.
\<close>

fun get_prop :: "json \<Rightarrow> string \<Rightarrow> err_msg + json" where
  "get_prop JUndefined k = Inl TypeErrorMsg"
| "get_prop JNull k = Inl TypeErrorMsg"
| "get_prop (JObj kvs) k = Inr (case map_of kvs k of None \<Rightarrow> JUndefined | Some v \<Rightarrow> v)"
| "get_prop (JArr xs) k = Inr (if k = ''length'' then JNum (real (length xs)) else JUndefined)"
| "get_prop (JStr s) k = Inr (if k = ''length'' then JNum (real (length s)) else JUndefined)"
| "get_prop (JBool b) k = Inr JUndefined"
| "get_prop (JNum x) k = Inr JUndefined"
| "get_prop JPosInf k = Inr JUndefined"
| "get_prop JNegInf k = Inr JUndefined"
| "get_prop JNaN k = Inr JUndefined"

text \<open>Reading the first element, \<^verbatim>\<open>v[0]\<close>.\<close>

fun index0 :: "json \<Rightarrow> err_msg + json" where
  "index0 JUndefined = Inl TypeErrorMsg"
| "index0 JNull = Inl TypeErrorMsg"
| "index0 (JArr xs) = Inr (case xs of [] \<Rightarrow> JUndefined | x # rest \<Rightarrow> x)"
| "index0 (JStr s) = Inr (case s of [] \<Rightarrow> JUndefined | c # rest \<Rightarrow> JStr [c])"
| "index0 (JObj kvs) = Inr (case map_of kvs ''0'' of None \<Rightarrow> JUndefined | Some v \<Rightarrow> v)"
| "index0 (JBool b) = Inr JUndefined"
| "index0 (JNum x) = Inr JUndefined"
| "index0 JPosInf = Inr JUndefined"
| "index0 JNegInf = Inr JUndefined"
| "index0 JNaN = Inr JUndefined"

text \<open>
  The values a \<^verbatim>\<open>for ... of\<close> loop visits: the elements of an array, the characters of
  a string; anything else is not iterable and the loop throws before its first round.
\<close>

fun iterate :: "json \<Rightarrow> err_msg + json list" where
  "iterate (JArr xs) = Inr xs"
| "iterate (JStr s) = Inr (map (\<lambda>c. JStr [c]) s)"
| "iterate v = Inl TypeErrorMsg"

text \<open>
  \<^verbatim>\<open>v.flat()\<close>: an array is flattened by one level, members that are not arrays stay;
  on any other value \<^verbatim>\<open>flat\<close> is not a function and the call throws.
\<close>

fun flat_members :: "json \<Rightarrow> json list" where
  "flat_members (JArr ys) = ys"
| "flat_members v = [v]"

fun flat :: "json \<Rightarrow> err_msg + json" where
  "flat (JArr xs) = Inr (JArr (concat (map flat_members xs)))"
| "flat v = Inl TypeErrorMsg"

text \<open>
  Conversion to a string, as a template literal, string concatenation and the setter
  of \<^verbatim>\<open>textContent\<close> perform it. Only whether it throws is modelled: an object that
  has an own property \<^verbatim>\<open>toString\<close> (never callable in a parsed document) cannot be
  converted, and an array converts its members.
\<close>

fun toString_throws :: "json \<Rightarrow> bool" where
  "toString_throws (JObj kvs) = (map_of kvs ''toString'' \<noteq> None)"
| "toString_throws (JArr xs) = list_ex toString_throws xs"
| "toString_throws v = False"

section \<open>Geometry Extractor\<close>

text \<open>\<^verbatim>\<open>extractCoordsFromGeometry\<close>, lines 191 to 196.\<close>

definition extractCoordsFromGeometry :: "json \<Rightarrow> err_msg + json" where
  "extractCoordsFromGeometry geometry =
     (if \<not> truthy geometry then Inr (JArr [])
      else bind_err (get_prop geometry ''type'') (\<lambda>t.
        if t = JStr ''LineString'' then
          bind_err (get_prop geometry ''coordinates'') (\<lambda>c. Inr (js_or c (JArr [])))
        else if t = JStr ''MultiLineString'' then
          bind_err (get_prop geometry ''coordinates'') (\<lambda>c. flat (js_or c (JArr [])))
        else Inr (JArr [])))"

text \<open>
  The loop of \<^verbatim>\<open>extractCoords\<close> over the features, lines 178 to 181: \<open>Some c\<close> is the
  early return of \<open>c\<close>, \<open>None\<close> is the loop running to its end.
\<close>

fun scan_features :: "json list \<Rightarrow> err_msg + json option" where
  "scan_features [] = Inr None"
| "scan_features (feature # rest) =
     bind_err (get_prop feature ''geometry'') (\<lambda>g.
     bind_err (extractCoordsFromGeometry g) (\<lambda>c.
     bind_err (get_prop c ''length'') (\<lambda>n.
       if truthy n then Inr (Some c) else scan_features rest)))"

text \<open>\<^verbatim>\<open>extractCoords\<close>, lines 174 to 189.\<close>

definition extractCoords :: "json \<Rightarrow> err_msg + json" where
  "extractCoords geojson =
     (if \<not> truthy geojson then Inr (JArr [])
      else bind_err (get_prop geojson ''type'') (\<lambda>t.
        bind_err (if t = JStr ''FeatureCollection'' then
                bind_err (get_prop geojson ''features'') (\<lambda>fs.
                bind_err (iterate (js_or fs (JArr []))) scan_features)
              else Inr None) (\<lambda>found.
        case found of
          Some c \<Rightarrow> Inr c
        | None \<Rightarrow>
            if t = JStr ''Feature'' then
              bind_err (get_prop geojson ''geometry'') extractCoordsFromGeometry
            else extractCoordsFromGeometry geojson)))"

text \<open>\<^verbatim>\<open>getFirstFeatureProps\<close>, lines 198 to 205.\<close>

definition getFirstFeatureProps :: "json \<Rightarrow> err_msg + json" where
  "getFirstFeatureProps geojson =
     (if \<not> truthy geojson then Inr JNull
      else bind_err (get_prop geojson ''type'') (\<lambda>t.
        if t = JStr ''FeatureCollection'' then
          bind_err (get_prop geojson ''features'') (\<lambda>fs.
          bind_err (if truthy fs then
                  bind_err (index0 fs) (\<lambda>f0.
                    if truthy f0 then get_prop f0 ''properties'' else Inr f0)
                else Inr fs) (\<lambda>v. Inr (js_or v JNull)))
        else if t = JStr ''Feature'' then
          bind_err (get_prop geojson ''properties'') (\<lambda>p. Inr (js_or p JNull))
        else Inr JNull))"

section \<open>Day Loader\<close>

text \<open>
  What the environment answers to one \<^verbatim>\<open>fetch(url)\<close> followed by \<^verbatim>\<open>res.json()\<close>: the
  request is rejected with a message, or a response arrives with its \<^verbatim>\<open>ok\<close> flag and
  its status, whose body either fails to parse or parses to a value.
\<close>

datatype response_body = JsonRejected string | JsonParsed json

datatype fetch_outcome = FetchRejected string | Response bool nat response_body

text \<open>
  The result object of \<^verbatim>\<open>loadDayGeoJSON\<close>, lines 127 to 137. Its \<^verbatim>\<open>url\<close> field is the
  string built from the data root, the trip identifier and the file name; it is used
  for the request only, whose answer is a parameter here, so the record leaves it out.
  The field \<open>error\<close> is \<open>None\<close> for \<^verbatim>\<open>null\<close>.
\<close>

record day_result =
  index :: nat
  filename :: json
  ok :: bool
  geojson :: json
  dayNumber :: json
  distance :: json
  elevation :: json
  error :: "err_msg option"

text \<open>\<^verbatim>\<open>typeof entry === 'object' && entry !== null\<close>, line 121.\<close>

fun isNewFormat :: "json \<Rightarrow> bool" where
  "isNewFormat (JObj kvs) = True"
| "isNewFormat (JArr xs) = True"
| "isNewFormat v = False"

text \<open>\<^verbatim>\<open>(props && props.k != null) ? props.k : alt\<close>, lines 147, 157 and 160.\<close>

definition embedded_or :: "json \<Rightarrow> string \<Rightarrow> err_msg + json \<Rightarrow> err_msg + json" where
  "embedded_or props k alt =
     (if truthy props then
        bind_err (get_prop props k) (\<lambda>v. if not_nullish v then Inr v else alt)
      else alt)"

text \<open>\<^verbatim>\<open>manual != null ? manual : 0\<close>, lines 151 and 152.\<close>

definition manual_or_zero :: "json \<Rightarrow> json" where
  "manual_or_zero manual = (if not_nullish manual then manual else JNum 0)"

text \<open>
  The body of the \<^verbatim>\<open>try\<close>, lines 140 to 163. The functions \<^verbatim>\<open>calcDistance\<close> and
  \<^verbatim>\<open>calcElevationGain\<close> are called by the script but are not defined in it: they are
  parameters. The result object is updated step by step; a throw leaves it as it is
  at that step, so \<open>Inl\<close> carries the message together with the object.
\<close>

definition try_block ::
  "(json \<Rightarrow> err_msg + json) \<Rightarrow> (json \<Rightarrow> err_msg + json) \<Rightarrow> fetch_outcome \<Rightarrow>
     bool \<Rightarrow> json \<Rightarrow> json \<Rightarrow> day_result \<Rightarrow> err_msg \<times> day_result + day_result" where
  "try_block calcDistance calcElevationGain outcome newFormat manualDist manualElev result =
     (case outcome of
        FetchRejected m \<Rightarrow> Inl (EnvMsg m, result)
      | Response res_ok status body \<Rightarrow>
          if \<not> res_ok then Inl (HttpMsg status, result)
          else (case body of
            JsonRejected m \<Rightarrow> Inl (EnvMsg m, result)
          | JsonParsed gj \<Rightarrow>
              let r1 = result\<lparr>geojson := gj, ok := True\<rparr> in
              (case getFirstFeatureProps gj of
                 Inl e \<Rightarrow> Inl (e, r1)
               | Inr props \<Rightarrow>
              (case embedded_or props ''day'' (Inr (JNum (real (index result) + 1))) of
                 Inl e \<Rightarrow> Inl (e, r1)
               | Inr dn \<Rightarrow>
              let r2 = r1\<lparr>dayNumber := dn\<rparr> in
              if newFormat then
                Inr (r2\<lparr>distance := manual_or_zero manualDist,
                        elevation := manual_or_zero manualElev\<rparr>)
              else
              (case extractCoords gj of
                 Inl e \<Rightarrow> Inl (e, r2)
               | Inr coords \<Rightarrow>
              (case embedded_or props ''distance_miles'' (calcDistance coords) of
                 Inl e \<Rightarrow> Inl (e, r2)
               | Inr d \<Rightarrow>
              let r3 = r2\<lparr>distance := d\<rparr> in
              (case embedded_or props ''elevation_gain_ft'' (calcElevationGain coords) of
                 Inl e \<Rightarrow> Inl (e, r3)
               | Inr el \<Rightarrow> Inr (r3\<lparr>elevation := el\<rparr>))))))))"

text \<open>
  \<^verbatim>\<open>loadDayGeoJSON\<close>, lines 119 to 171. The trip identifier and the data root only
  enter the URL. The template literal of line 126 converts the file name to a string
  before the \<^verbatim>\<open>try\<close> begins, so a throw there leaves the function (\<open>Inl\<close>); every
  throw inside the \<^verbatim>\<open>try\<close> is caught and stored in \<open>error\<close>.
\<close>

definition loadDayGeoJSON ::
  "(json \<Rightarrow> err_msg + json) \<Rightarrow> (json \<Rightarrow> err_msg + json) \<Rightarrow> fetch_outcome \<Rightarrow>
     json \<Rightarrow> nat \<Rightarrow> err_msg + day_result" where
  "loadDayGeoJSON calcDistance calcElevationGain outcome entry idx =
     bind_err (if isNewFormat entry then get_prop entry ''file'' else Inr entry) (\<lambda>fname.
     bind_err (if isNewFormat entry then get_prop entry ''distance_miles'' else Inr JNull) (\<lambda>manualDist.
     bind_err (if isNewFormat entry then get_prop entry ''elevation_gain_ft'' else Inr JNull) (\<lambda>manualElev.
       if toString_throws fname then Inl TypeErrorMsg
       else
         let result = \<lparr>index = idx, filename = fname, ok = False, geojson = JNull,
                        dayNumber = JNum (real idx + 1), distance = JNum 0,
                        elevation = JNum 0, error = None\<rparr>
         in Inr (case try_block calcDistance calcElevationGain outcome (isNewFormat entry)
                        manualDist manualElev result of
                   Inl (e, r) \<Rightarrow> r\<lparr>error := Some e\<rparr>
                 | Inr r \<Rightarrow> r))))"

section \<open>Trip Aggregator\<close>

text \<open>
  \<^verbatim>\<open>Promise.all\<close> over promises that settle in the order \<open>sched\<close> (a list of positions):
  each fulfilment stores its value at the promise's own position, the first rejection
  rejects the whole, and the list of values is delivered once every position is filled.
  A schedule that leaves a position out leaves the result pending. The loads of this
  script reject only before their first \<^verbatim>\<open>await\<close>; which of several rejections comes
  first is left to the schedule.
\<close>

datatype 'a promise = Pending | Rejected err_msg | Fulfilled 'a

fun settle_all :: "(err_msg + 'a) list \<Rightarrow> nat list \<Rightarrow> 'a option list \<Rightarrow> 'a list promise" where
  "settle_all ps [] vals = (case those vals of None \<Rightarrow> Pending | Some vs \<Rightarrow> Fulfilled vs)"
| "settle_all ps (i # sched) vals =
     (if i < length ps then
        (case ps ! i of
           Inl e \<Rightarrow> Rejected e
         | Inr v \<Rightarrow> settle_all ps sched (vals[i := Some v]))
      else settle_all ps sched vals)"

definition promise_all :: "nat list \<Rightarrow> (err_msg + 'a) list \<Rightarrow> 'a list promise" where
  "promise_all sched ps = settle_all ps sched (replicate (length ps) None)"

text \<open>
  \<^verbatim>\<open>loadAllDays\<close>, lines 96 to 101. \<open>net i\<close> is the answer of the environment to the
  request of the day at position \<open>i\<close>, \<open>sched\<close> the order in which the loads complete.
\<close>

definition loadAllDays ::
  "nat list \<Rightarrow> (nat \<Rightarrow> fetch_outcome) \<Rightarrow> (json \<Rightarrow> err_msg + json) \<Rightarrow>
     (json \<Rightarrow> err_msg + json) \<Rightarrow> json list \<Rightarrow> day_result list promise" where
  "loadAllDays sched net calcDistance calcElevationGain dayFiles =
     promise_all sched
       (map (\<lambda>(entry, idx). loadDayGeoJSON calcDistance calcElevationGain (net idx) entry idx)
          (zip dayFiles [0..<length dayFiles]))"

subsection \<open>Arithmetic on doubles\<close>

text \<open>
  The totals are computed with the arithmetic of IEEE doubles. An operation on finite
  numbers computes the exact result and rounds it to the nearest double, or to an
  infinity beyond the range; the rounding is not part of the script and is the
  parameter \<open>rnd\<close> of everything below. The operations on infinities and on
  \<^verbatim>\<open>NaN\<close> are those of the standard.
\<close>

datatype double = Finite real | PlusInfinity | MinusInfinity | NotANumber

text \<open>The number that a value is; \<open>None\<close> for a value that is not a number.\<close>

fun as_number :: "json \<Rightarrow> double option" where
  "as_number (JNum x) = Some (Finite x)"
| "as_number JPosInf = Some PlusInfinity"
| "as_number JNegInf = Some MinusInfinity"
| "as_number JNaN = Some NotANumber"
| "as_number v = None"

text \<open>\<^verbatim>\<open>a + b\<close> on numbers.\<close>

fun double_add :: "(real \<Rightarrow> double) \<Rightarrow> double \<Rightarrow> double \<Rightarrow> double" where
  "double_add rnd NotANumber b = NotANumber"
| "double_add rnd a NotANumber = NotANumber"
| "double_add rnd PlusInfinity MinusInfinity = NotANumber"
| "double_add rnd MinusInfinity PlusInfinity = NotANumber"
| "double_add rnd PlusInfinity b = PlusInfinity"
| "double_add rnd a PlusInfinity = PlusInfinity"
| "double_add rnd MinusInfinity b = MinusInfinity"
| "double_add rnd a MinusInfinity = MinusInfinity"
| "double_add rnd (Finite x) (Finite y) = rnd (x + y)"

text \<open>
  \<^verbatim>\<open>totalDistance > 0 ? totalElevation / totalDistance : none\<close>, lines 80 to 82, on
  numbers: \<open>None\<close> when the test fails and the script shows a dash, the quotient
  when it holds. The test holds for a finite number above 0 and for the positive
  infinity, so the divisor of the one division of the script is never a zero. The
  result is the number that line 81 then rounds to an integer and formats.
\<close>

fun vert_per_mile :: "(real \<Rightarrow> double) \<Rightarrow> double \<Rightarrow> double \<Rightarrow> double option" where
  "vert_per_mile rnd te (Finite d) =
     (if 0 < d then
        Some (case te of
                Finite e \<Rightarrow> rnd (e / d)
              | PlusInfinity \<Rightarrow> PlusInfinity
              | MinusInfinity \<Rightarrow> MinusInfinity
              | NotANumber \<Rightarrow> NotANumber)
      else None)"
| "vert_per_mile rnd te PlusInfinity =
     Some (case te of
             Finite e \<Rightarrow> Finite 0
           | PlusInfinity \<Rightarrow> NotANumber
           | MinusInfinity \<Rightarrow> NotANumber
           | NotANumber \<Rightarrow> NotANumber)"
| "vert_per_mile rnd te MinusInfinity = None"
| "vert_per_mile rnd te NotANumber = None"

subsection \<open>The totals\<close>

text \<open>
  The totals, lines 66 to 83 of \<^verbatim>\<open>initTripPage\<close>. The loop adds the distance and the
  elevation of every day with \<^verbatim>\<open>ok\<close> to totals that start at 0, one day after the
  other. When a field of such a day is not a number JavaScript converts the operands
  instead (a string is concatenated), which is outside this model: the result is
  \<open>None\<close> then.
\<close>

record trip_totals =
  totalDistance :: double
  totalElevation :: double
  vertPerMile :: "double option"

fun add_days ::
  "(real \<Rightarrow> double) \<Rightarrow> double \<Rightarrow> double \<Rightarrow> day_result list \<Rightarrow> (double \<times> double) option" where
  "add_days rnd td te [] = Some (td, te)"
| "add_days rnd td te (day # validDays) =
     (case as_number (distance day) of
        None \<Rightarrow> None
      | Some d \<Rightarrow>
          (case as_number (elevation day) of
             None \<Rightarrow> None
           | Some e \<Rightarrow> add_days rnd (double_add rnd td d) (double_add rnd te e) validDays))"

definition aggregate :: "(real \<Rightarrow> double) \<Rightarrow> day_result list \<Rightarrow> trip_totals option" where
  "aggregate rnd dayResults =
     (case add_days rnd (Finite 0) (Finite 0) (filter ok dayResults) of
        None \<Rightarrow> None
      | Some (td, te) \<Rightarrow>
          Some \<lparr>totalDistance = td, totalElevation = te,
                vertPerMile = vert_per_mile rnd te td\<rparr>)"

section \<open>The page\<close>

text \<open>
  What \<^verbatim>\<open>initTripPage\<close> does to the page, in order. \<open>SetText i v\<close> is the assignment of
  \<open>v\<close> to the text of the element \<open>i\<close>, \<open>SetTitle v\<close> the assignment of \<open>v\<close> followed by
  the fixed suffix to the document title, \<open>MetaError\<close> and \<open>MapError\<close> the error
  paragraphs of \<^verbatim>\<open>showMetaError\<close> and \<^verbatim>\<open>showMapError\<close>.
\<close>

datatype event =
    SetText string json
  | SetTitle json
  | MetaError err_msg
  | MapError string

text \<open>
  How a run ends: it returns, it throws out of the function, it waits for ever, or it
  reaches line 66 with the day results, where the totals (see \<open>aggregate\<close>) and the
  rendering of table, map and legend follow.
\<close>

datatype ending = Returned | Uncaught err_msg | NeverResumed | Continues "day_result list"

text \<open>
  The helpers of lines 399 to 417. \<open>has_el i\<close> tells whether the page has the element
  that the helper looks up. The text of \<^verbatim>\<open>showMapError\<close> has no character for
  \<^verbatim>\<open>escapeHtml\<close> to replace.
\<close>

definition setTextContent :: "(string \<Rightarrow> bool) \<Rightarrow> string \<Rightarrow> json \<Rightarrow> err_msg + event list" where
  "setTextContent has_el ident text =
     (if has_el ident then
        (if toString_throws text then Inl TypeErrorMsg else Inr [SetText ident text])
      else Inr [])"

definition showMetaError :: "(string \<Rightarrow> bool) \<Rightarrow> err_msg \<Rightarrow> event list" where
  "showMetaError has_el msg = (if has_el ''.trip-header'' then [MetaError msg] else [])"

definition showMapError :: "(string \<Rightarrow> bool) \<Rightarrow> string \<Rightarrow> event list" where
  "showMapError has_el msg = (if has_el ''trip-map'' then [MapError msg] else [])"

text \<open>Statements in sequence: the events of the statements before the first throw.\<close>

fun run_steps :: "(err_msg + event list) list \<Rightarrow> event list \<times> err_msg option" where
  "run_steps [] = ([], None)"
| "run_steps (Inl e # steps) = ([], Some e)"
| "run_steps (Inr evs # steps) = (evs @ fst (run_steps steps), snd (run_steps steps))"

text \<open>
  The header, lines 45 to 55. \<^verbatim>\<open>formatDate\<close> and \<^verbatim>\<open>calcElapsedTime\<close> are called by
  the script but are not defined in it: they are parameters.
\<close>

definition render_header ::
  "(string \<Rightarrow> bool) \<Rightarrow> (json \<Rightarrow> err_msg + json) \<Rightarrow>
     (json \<Rightarrow> json \<Rightarrow> json \<Rightarrow> json \<Rightarrow> err_msg + json) \<Rightarrow> string \<Rightarrow> json \<Rightarrow>
     event list \<times> err_msg option" where
  "render_header has_el formatDate calcElapsedTime tripId meta =
     run_steps
       [bind_err (get_prop meta ''title'') (\<lambda>t.
          setTextContent has_el ''trip-title'' (js_or t (JStr tripId))),
        bind_err (get_prop meta ''description'') (\<lambda>d.
          setTextContent has_el ''trip-description'' (js_or d (JStr []))),
        bind_err (get_prop meta ''start_date'') (\<lambda>sd.
          bind_err (formatDate sd) (setTextContent has_el ''trip-start-date'')),
        bind_err (get_prop meta ''end_date'') (\<lambda>ed.
          bind_err (formatDate ed) (setTextContent has_el ''trip-end-date'')),
        bind_err (get_prop meta ''start_date'') (\<lambda>sd.
        bind_err (get_prop meta ''start_time'') (\<lambda>st.
        bind_err (get_prop meta ''end_date'') (\<lambda>ed.
        bind_err (get_prop meta ''end_time'') (\<lambda>et.
          bind_err (calcElapsedTime sd st ed et) (setTextContent has_el ''trip-elapsed''))))),
        bind_err (get_prop meta ''title'') (\<lambda>t.
          if toString_throws (js_or t (JStr tripId)) then Inl TypeErrorMsg
          else Inr [SetTitle (js_or t (JStr tripId))])]"

text \<open>\<^verbatim>\<open>Array.isArray(meta.days) ? meta.days : []\<close>, line 58.\<close>

fun day_files :: "json \<Rightarrow> json list" where
  "day_files (JArr xs) = xs"
| "day_files v = []"

text \<open>\<^verbatim>\<open>initTripPage\<close>, lines 31 to 64, for the answer \<open>metaOutcome\<close> to the metadata request.\<close>

definition initTripPage ::
  "(string \<Rightarrow> bool) \<Rightarrow> (json \<Rightarrow> err_msg + json) \<Rightarrow>
     (json \<Rightarrow> json \<Rightarrow> json \<Rightarrow> json \<Rightarrow> err_msg + json) \<Rightarrow>
     nat list \<Rightarrow> (nat \<Rightarrow> fetch_outcome) \<Rightarrow> (json \<Rightarrow> err_msg + json) \<Rightarrow>
     (json \<Rightarrow> err_msg + json) \<Rightarrow> string \<Rightarrow> fetch_outcome \<Rightarrow> event list \<times> ending" where
  "initTripPage has_el formatDate calcElapsedTime sched net calcDistance calcElevationGain
       tripId metaOutcome =
     (case metaOutcome of
        FetchRejected m \<Rightarrow> (showMetaError has_el (EnvMsg m), Returned)
      | Response res_ok status body \<Rightarrow>
          if \<not> res_ok then (showMetaError has_el (HttpFetchingMsg status), Returned)
          else (case body of
            JsonRejected m \<Rightarrow> (showMetaError has_el (EnvMsg m), Returned)
          | JsonParsed meta \<Rightarrow>
              (case render_header has_el formatDate calcElapsedTime tripId meta of
                 (header, Some e) \<Rightarrow> (header, Uncaught e)
               | (header, None) \<Rightarrow>
              (case get_prop meta ''days'' of
                 Inl e \<Rightarrow> (header, Uncaught e)
               | Inr days \<Rightarrow>
                   let dayFiles = day_files days in
                   if length dayFiles = 0 then
                     (header @ showMapError has_el ''No day files listed in meta.json.'', Returned)
                   else
                     (case loadAllDays sched net calcDistance calcElevationGain dayFiles of
                        Pending \<Rightarrow> (header, NeverResumed)
                      | Rejected e \<Rightarrow> (header, Uncaught e)
                      | Fulfilled dayResults \<Rightarrow> (header, Continues dayResults))))))"

section \<open>Notions of the specification\<close>

text \<open>
  The definitions of this section are not code of the script. They say in the words
  of the specification what the theorems below compare the code with.
\<close>

subsection \<open>Day entries and their statistics\<close>

text \<open>
  The file name of a day entry, line 122: the entry itself when it is a bare string
  (or any other value that is not an object), its \<^verbatim>\<open>file\<close> property otherwise.
\<close>

fun entry_filename :: "json \<Rightarrow> json" where
  "entry_filename (JObj kvs) = (case map_of kvs ''file'' of None \<Rightarrow> JUndefined | Some v \<Rightarrow> v)"
| "entry_filename (JArr xs) = JUndefined"
| "entry_filename v = v"

text \<open>
  A statistic of a Manual entry: the value of the property when present, 0 when the
  property is absent or \<^verbatim>\<open>null\<close>.
\<close>

definition stat_or_zero :: "(string \<times> json) list \<Rightarrow> string \<Rightarrow> json" where
  "stat_or_zero kvs k =
     (case map_of kvs k of None \<Rightarrow> JNum 0 | Some v \<Rightarrow> if not_nullish v then v else JNum 0)"

text \<open>
  A statistic embedded in the properties of the first feature: \<open>Some v\<close> when the
  properties exist and carry a value other than \<^verbatim>\<open>null\<close> under the key.
\<close>

definition embedded :: "json \<Rightarrow> string \<Rightarrow> json option" where
  "embedded props k =
     (case get_prop props k of
        Inl e \<Rightarrow> None
      | Inr v \<Rightarrow> if truthy props \<and> not_nullish v then Some v else None)"

text \<open>
  A statistic of a Legacy entry: the embedded value when present, otherwise the
  Metric Calculator applied to the extracted coordinates.
\<close>

definition legacy_stat :: "json \<Rightarrow> string \<Rightarrow> (json \<Rightarrow> err_msg + json) \<Rightarrow> json \<Rightarrow> err_msg + json" where
  "legacy_stat props k calc coords =
     (case embedded props k of Some v \<Rightarrow> Inr v | None \<Rightarrow> calc coords)"

text \<open>
  The failures of a load that the specification lists, with the message each one
  leaves: a rejected request, a response whose status is not a success, a body that
  does not parse.
\<close>

fun fetch_failure :: "fetch_outcome \<Rightarrow> err_msg option" where
  "fetch_failure (FetchRejected m) = Some (EnvMsg m)"
| "fetch_failure (Response res_ok status (JsonRejected m)) =
     (if res_ok then Some (EnvMsg m) else Some (HttpMsg status))"
| "fetch_failure (Response res_ok status (JsonParsed g)) =
     (if res_ok then None else Some (HttpMsg status))"

subsection \<open>Measures\<close>






text \<open>A non-negative measure: a finite number that is not below 0.\<close>

fun is_nonneg :: "json \<Rightarrow> bool" where
  "is_nonneg (JNum x) = (0 \<le> x)"
| "is_nonneg v = False"

text \<open>
  A statistic that is given verbatim is in order when it is absent or a non-negative
  measure; \<open>outcome_props\<close> are the properties of the first feature of the geometry
  that a load delivered, \<^verbatim>\<open>null\<close> when there are none.
\<close>

definition stat_ok :: "json \<Rightarrow> string \<Rightarrow> bool" where
  "stat_ok obj k = (case embedded obj k of None \<Rightarrow> True | Some v \<Rightarrow> is_nonneg v)"

fun outcome_props :: "fetch_outcome \<Rightarrow> json" where
  "outcome_props (Response res_ok status (JsonParsed g)) =
     (case getFirstFeatureProps g of Inl e \<Rightarrow> JNull | Inr props \<Rightarrow> props)"
| "outcome_props outcome = JNull"

subsection \<open>Geometry\<close>

text \<open>
  The Geometry Extractor on a feature collection: of the coordinate sequences that
  the features yield, in listed order, the first one that is not empty; the empty
  sequence when there is none.
\<close>

fun first_nonempty :: "json list list \<Rightarrow> json list" where
  "first_nonempty [] = []"
| "first_nonempty (c # cs) = (if c \<noteq> [] then c else first_nonempty cs)"

text \<open>What one feature yields: the extraction of its \<^verbatim>\<open>geometry\<close>, line 179 and line 185.\<close>

definition feature_coords :: "json \<Rightarrow> err_msg + json" where
  "feature_coords feature = bind_err (get_prop feature ''geometry'') extractCoordsFromGeometry"

text \<open>\<^verbatim>\<open>Array.isArray\<close>, and a member of an object, \<^verbatim>\<open>undefined\<close> when there is none.\<close>

fun isArray :: "json \<Rightarrow> bool" where
  "isArray (JArr xs) = True"
| "isArray v = False"

definition field :: "json \<Rightarrow> string \<Rightarrow> json" where
  "field v k = (case get_prop v k of Inl e \<Rightarrow> JUndefined | Inr x \<Rightarrow> x)"

text \<open>
  A geometry document of the shape the specification describes: a geometry has a
  type, and an array of coordinates when it is a line or several lines; a feature has
  a geometry or \<^verbatim>\<open>null\<close> in its place; a collection has an array of features.
\<close>

definition wf_geometry :: "json \<Rightarrow> bool" where
  "wf_geometry g =
     (if field g ''type'' = JStr ''LineString'' \<or> field g ''type'' = JStr ''MultiLineString''
      then isArray (field g ''coordinates'')
      else field g ''type'' \<noteq> JUndefined)"

definition wf_feature :: "json \<Rightarrow> bool" where
  "wf_feature f =
     (field f ''type'' = JStr ''Feature''
      \<and> (field f ''geometry'' = JNull \<or> wf_geometry (field f ''geometry'')))"

definition wf_geojson :: "json \<Rightarrow> bool" where
  "wf_geojson g =
     (if field g ''type'' = JStr ''FeatureCollection''
      then isArray (field g ''features'') \<and> list_all wf_feature (day_files (field g ''features''))
      else if field g ''type'' = JStr ''Feature'' then wf_feature g
      else wf_geometry g)"

section \<open>Examples\<close>

text \<open>
  The rounding that leaves a number as it is: what the rounding of doubles does to
  every number that is a double. It stands for the rounding in the examples, whose
  numbers are chosen so that every sum and every quotient is a double.
\<close>

definition exact :: "real \<Rightarrow> double" where
  "exact x = Finite x"

text \<open>A Metric Calculator that returns the same number for every sequence.\<close>

definition const_calc :: "real \<Rightarrow> json \<Rightarrow> err_msg + json" where
  "const_calc x coords = Inr (JNum x)"

text \<open>
  Geometry documents: a line of two points, a collection whose only feature is
  \<^verbatim>\<open>null\<close>, a collection of a feature with embedded statistics and no geometry
  followed by \<^verbatim>\<open>null\<close>, a collection of one feature with an embedded distance, a collection whose
  features are a point, a feature without geometry and two lines, and a geometry of
  two segments.
\<close>

definition sample_line :: json where
  "sample_line =
     JObj [(''type'', JStr ''LineString''),
           (''coordinates'', JArr [JArr [JNum 0, JNum 0, JNum 10], JArr [JNum 0, JNum 1, JNum 20] ])]"

definition null_feature_collection :: json where
  "null_feature_collection = JObj [(''type'', JStr ''FeatureCollection''), (''features'', JArr [JNull])]"

definition stats_then_null :: json where
  "stats_then_null =
     JObj [(''type'', JStr ''FeatureCollection''),
           (''features'', JArr [
              JObj [(''type'', JStr ''Feature''),
                    (''properties'', JObj [(''distance_miles'', JNum 14.2),
                                           (''elevation_gain_ft'', JNum 3800)]),
                    (''geometry'', JNull)],
              JNull])]"

definition sample_collection :: json where
  "sample_collection =
     JObj [(''type'', JStr ''FeatureCollection''),
           (''features'', JArr [
              JObj [(''type'', JStr ''Feature''),
                    (''properties'', JObj [(''distance_miles'', JNum 14.2)]),
                    (''geometry'', sample_line)] ])]"

definition mixed_features :: "json list" where
  "mixed_features =
     [JObj [(''type'', JStr ''Feature''),
            (''geometry'', JObj [(''type'', JStr ''Point''),
                                 (''coordinates'', JArr [JNum 3, JNum 4])])],
      JObj [(''type'', JStr ''Feature''), (''geometry'', JNull)],
      JObj [(''type'', JStr ''Feature''), (''geometry'', sample_line)],
      JObj [(''type'', JStr ''Feature''),
            (''geometry'', JObj [(''type'', JStr ''LineString''),
                                 (''coordinates'', JArr [JArr [JNum 7, JNum 8] ])])] ]"

definition mixed_collection :: json where
  "mixed_collection =
     JObj [(''type'', JStr ''FeatureCollection''), (''features'', JArr mixed_features)]"

definition two_segments :: json where
  "two_segments =
     JObj [(''type'', JStr ''MultiLineString''),
           (''coordinates'',
              JArr (map JArr [ [JArr [JNum 0, JNum 0], JArr [JNum 0, JNum 1] ],
                              [JArr [JNum 5, JNum 5] ] ]))]"

text \<open>
  Day entries and answers of the environment: a Manual entry with a negative
  distance, three Legacy days, an environment that answers the second request with
  status 404 and one that answers every request with the line.
\<close>

definition negative_entry :: json where
  "negative_entry =
     JObj [(''file'', JStr ''day-1.geojson''), (''distance_miles'', JNum (- 5)),
           (''elevation_gain_ft'', JNum 100)]"

definition three_days :: "json list" where
  "three_days = [JStr ''day-1.geojson'', JStr ''day-2.geojson'', JStr ''day-3.geojson'']"

definition second_missing :: "nat \<Rightarrow> fetch_outcome" where
  "second_missing i =
     (if i = 1 then Response False 404 (JsonRejected [])
      else Response True 200 (JsonParsed sample_line))"

definition all_fine :: "nat \<Rightarrow> fetch_outcome" where
  "all_fine i = Response True 200 (JsonParsed sample_line)"

text \<open>Day results: the one of the negative entry, and two good days around a failed one.\<close>

definition negative_result :: day_result where
  "negative_result =
     \<lparr>index = 0, filename = JStr ''day-1.geojson'', ok = True, geojson = sample_line,
      dayNumber = JNum 1, distance = JNum (- 5), elevation = JNum 100, error = None\<rparr>"


text \<open>
  A page that has every element, stand-ins for the two date helpers, and metadata
  whose \<^verbatim>\<open>days\<close> is a string and an empty array.
\<close>

definition every_element :: "string \<Rightarrow> bool" where
  "every_element ident = True"

definition echo_date :: "json \<Rightarrow> err_msg + json" where
  "echo_date d = Inr d"

definition no_elapsed :: "json \<Rightarrow> json \<Rightarrow> json \<Rightarrow> json \<Rightarrow> err_msg + json" where
  "no_elapsed sd st ed et = Inr (JStr [])"

definition meta_days_string :: json where
  "meta_days_string = JObj [(''title'', JStr ''Long Trail''), (''days'', JStr ''day-1.geojson'')]"

definition meta_days_empty :: json where
  "meta_days_empty = JObj [(''title'', JStr ''Long Trail''), (''days'', JArr [])]"

section \<open>Reading properties never fails on a value that is not null\<close>

lemma get_prop_truthy: "truthy v \<Longrightarrow> \<exists>x. get_prop v k = Inr x"
  by (cases v) auto

lemma index0_truthy: "truthy v \<Longrightarrow> \<exists>x. index0 v = Inr x"
  by (cases v) auto

lemma getFirstFeatureProps_total: "\<exists>p. getFirstFeatureProps g = Inr p"
proof (cases "truthy g")
  case False
  then show ?thesis by (simp add: getFirstFeatureProps_def)
next
  case True
  then obtain t where t: "get_prop g ''type'' = Inr t" using get_prop_truthy by blast
  from True obtain fs where fs: "get_prop g ''features'' = Inr fs" using get_prop_truthy by blast
  from True obtain ps where ps: "get_prop g ''properties'' = Inr ps" using get_prop_truthy by blast
  show ?thesis
  proof (cases "truthy fs")
    case False
    with True t fs ps show ?thesis by (simp add: getFirstFeatureProps_def bind_err_def)
  next
    case tf: True
    then obtain f0 where f0: "index0 fs = Inr f0" using index0_truthy by blast
    show ?thesis
    proof (cases "truthy f0")
      case False
      with True t fs ps tf f0 show ?thesis by (simp add: getFirstFeatureProps_def bind_err_def)
    next
      case t0: True
      then obtain p0 where "get_prop f0 ''properties'' = Inr p0" using get_prop_truthy by blast
      with True t fs ps tf f0 t0 show ?thesis by (simp add: getFirstFeatureProps_def bind_err_def)
    qed
  qed
qed

lemma embedded_or_embedded:
  "embedded_or props k alt = (case embedded props k of Some v \<Rightarrow> Inr v | None \<Rightarrow> alt)"
proof (cases "truthy props")
  case False
  then show ?thesis by (simp add: embedded_or_def embedded_def split: sum.splits)
next
  case True
  then obtain v where "get_prop props k = Inr v" using get_prop_truthy by blast
  with True show ?thesis by (simp add: embedded_or_def embedded_def bind_err_def)
qed

lemma embedded_or_total: "\<exists>v. embedded_or props k (Inr x) = Inr v"
  by (simp add: embedded_or_embedded split: option.splits)

lemma manual_or_zero_stat:
  "manual_or_zero (case map_of kvs k of None \<Rightarrow> JUndefined | Some v \<Rightarrow> v) = stat_or_zero kvs k"
  by (simp add: manual_or_zero_def stat_or_zero_def split: option.splits)

section \<open>Manual entries\<close>

lemma try_block_manual:
  "\<exists>dn. try_block cd ce (Response True s (JsonParsed g)) True md me result
     = Inr (result\<lparr>geojson := g, ok := True, dayNumber := dn,
               distance := manual_or_zero md, elevation := manual_or_zero me\<rparr>)
   \<and> (\<forall>cd' ce'. try_block cd' ce' (Response True s (JsonParsed g)) True md me result
     = Inr (result\<lparr>geojson := g, ok := True, dayNumber := dn,
               distance := manual_or_zero md, elevation := manual_or_zero me\<rparr>))"
proof -
  obtain p where p: "getFirstFeatureProps g = Inr p" using getFirstFeatureProps_total by blast
  obtain dn where dn: "embedded_or p ''day'' (Inr (JNum (real (index result) + 1))) = Inr dn"
    using embedded_or_total by blast
  show ?thesis using p dn by (intro exI[of _ dn]) (simp add: try_block_def)
qed

text \<open>
  Claim C3. For a Manual entry (an object) whose geometry loads, the result is a
  success whose distance and elevation are the entry's \<^verbatim>\<open>distance_miles\<close> and
  \<^verbatim>\<open>elevation_gain_ft\<close>, 0 where the entry has none, whatever the geometry \<open>g\<close> is;
  and the Metric Calculator has no part in it: any other pair of calculator
  functions, also ones that throw, gives the same result. The hypothesis says that
  the file name can be put into the URL.
\<close>

theorem manual_stats_direct:
  assumes "\<not> toString_throws (entry_filename (JObj kvs))"
  shows "\<exists>r. loadDayGeoJSON cd ce (Response True s (JsonParsed g)) (JObj kvs) i = Inr r
            \<and> ok r \<and> error r = None \<and> geojson r = g
            \<and> distance r = stat_or_zero kvs ''distance_miles''
            \<and> elevation r = stat_or_zero kvs ''elevation_gain_ft''
            \<and> loadDayGeoJSON cd' ce' (Response True s (JsonParsed g)) (JObj kvs) i = Inr r"
proof -
  let ?res = "\<lparr>index = i, filename = entry_filename (JObj kvs), ok = False, geojson = JNull,
                dayNumber = JNum (real i + 1), distance = JNum 0,
                elevation = JNum 0, error = None\<rparr>"
  let ?md = "case map_of kvs ''distance_miles'' of None \<Rightarrow> JUndefined | Some v \<Rightarrow> v"
  let ?me = "case map_of kvs ''elevation_gain_ft'' of None \<Rightarrow> JUndefined | Some v \<Rightarrow> v"
  from try_block_manual[of cd ce s g ?md ?me ?res]
  obtain dn where 1: "try_block cd ce (Response True s (JsonParsed g)) True ?md ?me ?res
     = Inr (?res\<lparr>geojson := g, ok := True, dayNumber := dn,
                 distance := manual_or_zero ?md, elevation := manual_or_zero ?me\<rparr>)"
   and 2: "try_block cd' ce' (Response True s (JsonParsed g)) True ?md ?me ?res
     = Inr (?res\<lparr>geojson := g, ok := True, dayNumber := dn,
                 distance := manual_or_zero ?md, elevation := manual_or_zero ?me\<rparr>)"
    by blast
  show ?thesis using assms 1 2
    by (simp add: loadDayGeoJSON_def bind_err_def manual_or_zero_stat)
qed

theorem manual_stats_direct_witness:
  "\<not> toString_throws (entry_filename
        (JObj [(''file'', JStr ''day-2.geojson''), (''distance_miles'', JNum 11.7)]))
   \<and> (\<exists>r. loadDayGeoJSON (const_calc 99) (const_calc 999)
              (Response True 200 (JsonParsed sample_line))
              (JObj [(''file'', JStr ''day-2.geojson''), (''distance_miles'', JNum 11.7)]) 1 = Inr r
          \<and> ok r \<and> error r = None \<and> geojson r = sample_line
          \<and> distance r = JNum 11.7 \<and> elevation r = JNum 0
          \<and> loadDayGeoJSON (\<lambda>c. Inl TypeErrorMsg) (\<lambda>c. Inl TypeErrorMsg)
              (Response True 200 (JsonParsed sample_line))
              (JObj [(''file'', JStr ''day-2.geojson''), (''distance_miles'', JNum 11.7)]) 1 = Inr r)"
  using manual_stats_direct
    [of "[(''file'', JStr ''day-2.geojson''), (''distance_miles'', JNum 11.7)]"
        "const_calc 99" "const_calc 999" 200 sample_line 1
        "\<lambda>c. Inl TypeErrorMsg" "\<lambda>c. Inl TypeErrorMsg"]
  by (simp add: stat_or_zero_def)

section \<open>The extractor on a null feature\<close>

text \<open>
  Claim C6. On a feature collection whose list of features holds \<^verbatim>\<open>null\<close> the
  extractor throws: line 179 reads \<^verbatim>\<open>feature.geometry\<close> of \<^verbatim>\<open>null\<close>. The claim
  promises the empty sequence and no error for such a list. On the same document
  \<^verbatim>\<open>getFirstFeatureProps\<close>, which tests the feature before it reads from it
  (line 201), returns \<^verbatim>\<open>null\<close>.
\<close>

theorem extractCoords_null_feature:
  "extractCoords null_feature_collection = Inl TypeErrorMsg
   \<and> getFirstFeatureProps null_feature_collection = Inr JNull"
  by (simp add: extractCoords_def getFirstFeatureProps_def null_feature_collection_def
      bind_err_def js_or_def)

text \<open>
  Claim C1. A Legacy day whose geometry is that collection: the document loads and
  parses, line 144 sets \<^verbatim>\<open>ok\<close>, then the extractor throws inside the \<^verbatim>\<open>try\<close> and
  line 166 stores the message. The result has \<^verbatim>\<open>ok\<close> true and an error message.
\<close>

theorem ok_result_with_error:
  "loadDayGeoJSON cd ce (Response True 200 (JsonParsed null_feature_collection))
     (JStr ''day-1.geojson'') 0
   = Inr \<lparr>index = 0, filename = JStr ''day-1.geojson'', ok = True,
          geojson = null_feature_collection, dayNumber = JNum 1, distance = JNum 0,
          elevation = JNum 0, error = Some TypeErrorMsg\<rparr>"
proof -
  have p: "getFirstFeatureProps null_feature_collection = Inr JNull"
    by (simp add: getFirstFeatureProps_def null_feature_collection_def bind_err_def js_or_def)
  have x: "extractCoords null_feature_collection = Inl TypeErrorMsg"
    by (simp add: extractCoords_def null_feature_collection_def bind_err_def js_or_def)
  show ?thesis
    by (simp add: loadDayGeoJSON_def try_block_def bind_err_def p x embedded_or_def)
qed

text \<open>
  Three more documents on which the extractor does not answer with the empty
  sequence: coordinates and features that are a number.
\<close>

lemma extractCoords_multiline_number:
  "extractCoords (JObj [(''type'', JStr ''MultiLineString''), (''coordinates'', JNum 5)])
     = Inl TypeErrorMsg"
  by (simp add: extractCoords_def extractCoordsFromGeometry_def bind_err_def js_or_def)

lemma extractCoords_line_number:
  "extractCoords (JObj [(''type'', JStr ''LineString''), (''coordinates'', JNum 5)])
     = Inr (JNum 5)"
  by (simp add: extractCoords_def extractCoordsFromGeometry_def bind_err_def js_or_def)

lemma extractCoords_features_number:
  "extractCoords (JObj [(''type'', JStr ''FeatureCollection''), (''features'', JNum 5)])
     = Inl TypeErrorMsg"
  by (simp add: extractCoords_def bind_err_def js_or_def)

section \<open>Legacy entries\<close>

lemma try_block_legacy:
  assumes "getFirstFeatureProps g = Inr props" and "extractCoords g = Inr coords"
    and "legacy_stat props ''distance_miles'' cd coords = Inr d"
    and "legacy_stat props ''elevation_gain_ft'' ce coords = Inr e"
  shows "\<exists>dn. try_block cd ce (Response True s (JsonParsed g)) False md me result
     = Inr (result\<lparr>geojson := g, ok := True, dayNumber := dn, distance := d, elevation := e\<rparr>)"
proof -
  obtain dn where dn: "embedded_or props ''day'' (Inr (JNum (real (index result) + 1))) = Inr dn"
    using embedded_or_total by blast
  from assms(3) have d: "embedded_or props ''distance_miles'' (cd coords) = Inr d"
    by (simp add: embedded_or_embedded legacy_stat_def)
  from assms(4) have e: "embedded_or props ''elevation_gain_ft'' (ce coords) = Inr e"
    by (simp add: embedded_or_embedded legacy_stat_def)
  show ?thesis using assms(1,2) dn d e by (intro exI[of _ dn]) (simp add: try_block_def)
qed

text \<open>
  The statistics of a Legacy entry (a bare file name) whose geometry \<open>g\<close> loads, when
  the extractor returns the sequence \<open>coords\<close>: the distance of the result is the
  \<^verbatim>\<open>distance_miles\<close> embedded in the properties of the first feature when there is
  one (whatever the calculator would give), otherwise \<^verbatim>\<open>calcDistance\<close> of \<open>coords\<close>;
  the elevation likewise with \<^verbatim>\<open>elevation_gain_ft\<close> and \<^verbatim>\<open>calcElevationGain\<close>.
\<close>

theorem legacy_stats_embedded_first:
  assumes "getFirstFeatureProps g = Inr props" and "extractCoords g = Inr coords"
    and "legacy_stat props ''distance_miles'' cd coords = Inr d"
    and "legacy_stat props ''elevation_gain_ft'' ce coords = Inr e"
  shows "\<exists>r. loadDayGeoJSON cd ce (Response True s (JsonParsed g)) (JStr f) i = Inr r
            \<and> ok r \<and> error r = None \<and> geojson r = g \<and> distance r = d \<and> elevation r = e"
proof -
  let ?res = "\<lparr>index = i, filename = JStr f, ok = False, geojson = JNull,
                dayNumber = JNum (real i + 1), distance = JNum 0,
                elevation = JNum 0, error = None\<rparr>"
  from try_block_legacy[OF assms, of s JNull JNull ?res]
  obtain dn where "try_block cd ce (Response True s (JsonParsed g)) False JNull JNull ?res
     = Inr (?res\<lparr>geojson := g, ok := True, dayNumber := dn, distance := d, elevation := e\<rparr>)"
    by blast
  then show ?thesis by (simp add: loadDayGeoJSON_def bind_err_def)
qed

lemma sample_collection_props:
  "getFirstFeatureProps sample_collection = Inr (JObj [(''distance_miles'', JNum 14.2)])"
  by (simp add: getFirstFeatureProps_def sample_collection_def bind_err_def js_or_def)

lemma sample_line_coords:
  "extractCoordsFromGeometry sample_line
     = Inr (JArr [JArr [JNum 0, JNum 0, JNum 10], JArr [JNum 0, JNum 1, JNum 20] ])"
  by (simp add: extractCoordsFromGeometry_def sample_line_def bind_err_def js_or_def)

lemma sample_collection_coords:
  "extractCoords sample_collection
     = Inr (JArr [JArr [JNum 0, JNum 0, JNum 10], JArr [JNum 0, JNum 1, JNum 20] ])"
  by (simp add: extractCoords_def sample_collection_def bind_err_def js_or_def sample_line_coords)

theorem legacy_stats_embedded_first_witness:
  "legacy_stat (JObj [(''distance_miles'', JNum 14.2)]) ''distance_miles'' (const_calc 99)
       (JArr [JArr [JNum 0, JNum 0, JNum 10], JArr [JNum 0, JNum 1, JNum 20] ]) = Inr (JNum 14.2)
   \<and> legacy_stat (JObj [(''distance_miles'', JNum 14.2)]) ''elevation_gain_ft'' (const_calc 10)
       (JArr [JArr [JNum 0, JNum 0, JNum 10], JArr [JNum 0, JNum 1, JNum 20] ]) = Inr (JNum 10)
   \<and> (\<exists>r. loadDayGeoJSON (const_calc 99) (const_calc 10)
             (Response True 200 (JsonParsed sample_collection)) (JStr ''day-1.geojson'') 0 = Inr r
          \<and> ok r \<and> error r = None \<and> geojson r = sample_collection
          \<and> distance r = JNum 14.2 \<and> elevation r = JNum 10)"
proof -
  have d: "legacy_stat (JObj [(''distance_miles'', JNum 14.2)]) ''distance_miles'' (const_calc 99)
       (JArr [JArr [JNum 0, JNum 0, JNum 10], JArr [JNum 0, JNum 1, JNum 20] ]) = Inr (JNum 14.2)"
    by (simp add: legacy_stat_def embedded_def)
  have e: "legacy_stat (JObj [(''distance_miles'', JNum 14.2)]) ''elevation_gain_ft'' (const_calc 10)
       (JArr [JArr [JNum 0, JNum 0, JNum 10], JArr [JNum 0, JNum 1, JNum 20] ]) = Inr (JNum 10)"
    by (simp add: legacy_stat_def embedded_def const_calc_def)
  from legacy_stats_embedded_first[OF sample_collection_props sample_collection_coords d e, of 200 "''day-1.geojson''" 0]
  show ?thesis using d e by simp
qed

text \<open>
  Claim C4. A Legacy day whose collection has a first feature with embedded
  statistics and no geometry, followed by \<^verbatim>\<open>null\<close>: the document loads and parses
  and the statistics 14.2 and 3800 are there, but line 156 extracts the coordinates
  before line 157 looks at them, the extractor throws on the \<^verbatim>\<open>null\<close> feature, and
  distance and elevation stay 0. The claim, and the comment of line 154, say that the
  embedded statistics are used.
\<close>

theorem embedded_stats_lost:
  "getFirstFeatureProps stats_then_null
     = Inr (JObj [(''distance_miles'', JNum 14.2), (''elevation_gain_ft'', JNum 3800)])
   \<and> embedded (JObj [(''distance_miles'', JNum 14.2), (''elevation_gain_ft'', JNum 3800)])
        ''distance_miles'' = Some (JNum 14.2)
   \<and> embedded (JObj [(''distance_miles'', JNum 14.2), (''elevation_gain_ft'', JNum 3800)])
        ''elevation_gain_ft'' = Some (JNum 3800)
   \<and> loadDayGeoJSON cd ce (Response True 200 (JsonParsed stats_then_null))
        (JStr ''day-1.geojson'') 0
      = Inr \<lparr>index = 0, filename = JStr ''day-1.geojson'', ok = True,
             geojson = stats_then_null, dayNumber = JNum 1, distance = JNum 0,
             elevation = JNum 0, error = Some TypeErrorMsg\<rparr>"
proof -
  have p: "getFirstFeatureProps stats_then_null
      = Inr (JObj [(''distance_miles'', JNum 14.2), (''elevation_gain_ft'', JNum 3800)])"
    by (simp add: getFirstFeatureProps_def stats_then_null_def bind_err_def js_or_def)
  have x: "extractCoords stats_then_null = Inl TypeErrorMsg"
    by (simp add: extractCoords_def extractCoordsFromGeometry_def stats_then_null_def
        bind_err_def js_or_def)
  have l: "loadDayGeoJSON cd ce (Response True 200 (JsonParsed stats_then_null))
        (JStr ''day-1.geojson'') 0
      = Inr \<lparr>index = 0, filename = JStr ''day-1.geojson'', ok = True,
             geojson = stats_then_null, dayNumber = JNum 1, distance = JNum 0,
             elevation = JNum 0, error = Some TypeErrorMsg\<rparr>"
    by (simp add: loadDayGeoJSON_def try_block_def bind_err_def p x embedded_or_def)
  from p l show ?thesis by (simp add: embedded_def)
qed

section \<open>Non-negative measures\<close>

lemma try_block_failure:
  "fetch_failure outcome = Some m \<Longrightarrow> try_block cd ce outcome nf md me result = Inl (m, result)"
  by (auto simp: try_block_def split: fetch_outcome.splits response_body.splits if_splits)

lemma try_block_parsed:
  "fetch_failure outcome = None \<Longrightarrow> \<exists>s g. outcome = Response True s (JsonParsed g)"
  by (cases outcome rule: fetch_failure.cases) (auto split: if_splits)

lemma stat_ok_manual:
  assumes "isNewFormat entry" and "stat_ok entry k" and "get_prop entry k = Inr v"
  shows "is_nonneg (manual_or_zero v)"
proof -
  from assms(1) have "truthy entry" by (cases entry) auto
  with assms(2,3) show ?thesis
    by (cases "not_nullish v") (auto simp: stat_ok_def embedded_def manual_or_zero_def)
qed

lemma legacy_stat_nonneg:
  assumes "stat_ok props k" and "\<And>c v. calc c = Inr v \<Longrightarrow> is_nonneg v"
    and "embedded_or props k (calc coords) = Inr v"
  shows "is_nonneg v"
  using assms by (auto simp: embedded_or_embedded stat_ok_def split: option.splits)

lemma try_block_nonneg:
  assumes r0: "is_nonneg (distance result)" "is_nonneg (elevation result)"
    and man: "nf \<Longrightarrow> is_nonneg (manual_or_zero md) \<and> is_nonneg (manual_or_zero me)"
    and emb: "\<not> nf \<Longrightarrow> stat_ok (outcome_props outcome) ''distance_miles''
                     \<and> stat_ok (outcome_props outcome) ''elevation_gain_ft''"
    and cd: "\<And>c v. cd c = Inr v \<Longrightarrow> is_nonneg v"
    and ce: "\<And>c v. ce c = Inr v \<Longrightarrow> is_nonneg v"
    and tb: "try_block cd ce outcome nf md me result = Inl (e, r)
             \<or> try_block cd ce outcome nf md me result = Inr r"
  shows "is_nonneg (distance r) \<and> is_nonneg (elevation r)"
proof (cases "fetch_failure outcome")
  case (Some m)
  from try_block_failure[OF Some] tb r0 show ?thesis by auto
next
  case None
  then obtain s g where out: "outcome = Response True s (JsonParsed g)"
    using try_block_parsed by blast
  obtain props where p: "getFirstFeatureProps g = Inr props"
    using getFirstFeatureProps_total by blast
  obtain dn where dn: "embedded_or props ''day'' (Inr (JNum (real (index result) + 1))) = Inr dn"
    using embedded_or_total by blast
  show ?thesis
  proof (cases nf)
    case True
    with tb out p dn man r0 show ?thesis by (auto simp: try_block_def)
  next
    case False
    with emb out p have so: "stat_ok props ''distance_miles''" "stat_ok props ''elevation_gain_ft''"
      by auto
    show ?thesis
    proof (cases "extractCoords g")
      case (Inl x)
      with tb out p dn False r0 show ?thesis by (auto simp: try_block_def)
    next
      case (Inr coords)
      show ?thesis
      proof (cases "embedded_or props ''distance_miles'' (cd coords)")
        case (Inl x)
        with tb out p dn False r0 Inr show ?thesis by (auto simp: try_block_def)
      next
        case d: (Inr d)
        have nd: "is_nonneg d"
          by (rule legacy_stat_nonneg[where calc = cd and coords = coords, OF so(1) cd d])
        show ?thesis
        proof (cases "embedded_or props ''elevation_gain_ft'' (ce coords)")
          case (Inl x)
          with tb out p dn False r0 Inr d nd show ?thesis by (auto simp: try_block_def)
        next
          case el: (Inr el)
          have "is_nonneg el"
            by (rule legacy_stat_nonneg[where calc = ce and coords = coords, OF so(2) ce el])
          with tb out p dn False r0 Inr d nd el show ?thesis by (auto simp: try_block_def)
        qed
      qed
    qed
  qed
qed

text \<open>
  Claim C9, amended. The distance and the elevation of a result are non-negative
  measures when every value the loader can use is one: the statistics of a Manual
  entry and the statistics embedded in the first feature (each absent or a
  non-negative number), and the numbers the Metric Calculator returns. The loader
  copies the verbatim values without looking at them.
\<close>

theorem stats_nonneg_when_inputs_are:
  assumes man: "isNewFormat entry \<Longrightarrow>
                  stat_ok entry ''distance_miles'' \<and> stat_ok entry ''elevation_gain_ft''"
    and emb: "\<not> isNewFormat entry \<Longrightarrow>
                  stat_ok (outcome_props outcome) ''distance_miles''
                  \<and> stat_ok (outcome_props outcome) ''elevation_gain_ft''"
    and cd: "\<And>c v. cd c = Inr v \<Longrightarrow> is_nonneg v"
    and ce: "\<And>c v. ce c = Inr v \<Longrightarrow> is_nonneg v"
    and ld: "loadDayGeoJSON cd ce outcome entry i = Inr r"
  shows "is_nonneg (distance r) \<and> is_nonneg (elevation r)"
proof -
  from ld obtain fname md me where
    f: "(if isNewFormat entry then get_prop entry ''file'' else Inr entry) = Inr fname"
    and md: "(if isNewFormat entry then get_prop entry ''distance_miles'' else Inr JNull) = Inr md"
    and me: "(if isNewFormat entry then get_prop entry ''elevation_gain_ft'' else Inr JNull) = Inr me"
    by (auto simp: loadDayGeoJSON_def bind_err_def split: sum.splits)
  let ?res = "\<lparr>index = i, filename = fname, ok = False, geojson = JNull,
                dayNumber = JNum (real i + 1), distance = JNum 0,
                elevation = JNum 0, error = None\<rparr>"
  let ?tb = "try_block cd ce outcome (isNewFormat entry) md me ?res"
  from ld f md me have r: "r = (case ?tb of Inl (e, r') \<Rightarrow> r'\<lparr>error := Some e\<rparr> | Inr r' \<Rightarrow> r')"
    by (auto simp: loadDayGeoJSON_def bind_err_def split: if_splits)
  have m: "isNewFormat entry \<Longrightarrow> is_nonneg (manual_or_zero md) \<and> is_nonneg (manual_or_zero me)"
    using man md me stat_ok_manual by (auto split: if_splits)
  have "\<And>e r'. ?tb = Inl (e, r') \<or> ?tb = Inr r' \<Longrightarrow> is_nonneg (distance r') \<and> is_nonneg (elevation r')"
    by (rule try_block_nonneg[where result = ?res, OF _ _ m emb cd ce]) auto
  with r show ?thesis by (cases ?tb) auto
qed

lemma sample_collection_load:
  "loadDayGeoJSON (const_calc 99) (const_calc 10)
     (Response True 200 (JsonParsed sample_collection)) (JStr ''day-1.geojson'') 0
   = Inr \<lparr>index = 0, filename = JStr ''day-1.geojson'', ok = True,
          geojson = sample_collection, dayNumber = JNum 1, distance = JNum 14.2,
          elevation = JNum 10, error = None\<rparr>"
  by (simp add: loadDayGeoJSON_def try_block_def bind_err_def sample_collection_props
      sample_collection_coords embedded_or_def const_calc_def)

theorem stats_nonneg_when_inputs_are_witness:
  "loadDayGeoJSON (const_calc 99) (const_calc 10)
     (Response True 200 (JsonParsed sample_collection)) (JStr ''day-1.geojson'') 0
   = Inr \<lparr>index = 0, filename = JStr ''day-1.geojson'', ok = True,
          geojson = sample_collection, dayNumber = JNum 1, distance = JNum 14.2,
          elevation = JNum 10, error = None\<rparr>
   \<and> stat_ok (outcome_props (Response True 200 (JsonParsed sample_collection))) ''distance_miles''
   \<and> stat_ok (outcome_props (Response True 200 (JsonParsed sample_collection))) ''elevation_gain_ft''
   \<and> is_nonneg (distance \<lparr>index = 0, filename = JStr ''day-1.geojson'', ok = True,
          geojson = sample_collection, dayNumber = JNum 1, distance = JNum 14.2,
          elevation = JNum 10, error = None\<rparr>)
   \<and> is_nonneg (elevation \<lparr>index = 0, filename = JStr ''day-1.geojson'', ok = True,
          geojson = sample_collection, dayNumber = JNum 1, distance = JNum 14.2,
          elevation = JNum 10, error = None\<rparr>)"
proof -
  have so: "stat_ok (outcome_props (Response True 200 (JsonParsed sample_collection))) ''distance_miles''
     \<and> stat_ok (outcome_props (Response True 200 (JsonParsed sample_collection))) ''elevation_gain_ft''"
    by (simp add: sample_collection_props stat_ok_def embedded_def)
  have "is_nonneg (distance \<lparr>index = 0, filename = JStr ''day-1.geojson'', ok = True,
          geojson = sample_collection, dayNumber = JNum 1, distance = JNum 14.2,
          elevation = JNum 10, error = None\<rparr>)
   \<and> is_nonneg (elevation \<lparr>index = 0, filename = JStr ''day-1.geojson'', ok = True,
          geojson = sample_collection, dayNumber = JNum 1, distance = JNum 14.2,
          elevation = JNum 10, error = None\<rparr>)"
  proof (rule stats_nonneg_when_inputs_are[where cd = "const_calc 99" and ce = "const_calc 10",
           OF _ _ _ _ sample_collection_load])
    show "stat_ok (outcome_props (Response True 200 (JsonParsed sample_collection))) ''distance_miles''
     \<and> stat_ok (outcome_props (Response True 200 (JsonParsed sample_collection))) ''elevation_gain_ft''"
      by (rule so)
  qed (auto simp: const_calc_def)
  with so sample_collection_load show ?thesis by blast
qed

text \<open>
  Claim C9 as stated fails: a Manual entry with \<^verbatim>\<open>distance_miles: -5\<close> loads to a
  result whose distance is -5.
\<close>

theorem negative_manual_distance:
  "loadDayGeoJSON (const_calc 0) (const_calc 0) (Response True 200 (JsonParsed sample_line))
     negative_entry 0
   = Inr \<lparr>index = 0, filename = JStr ''day-1.geojson'', ok = True, geojson = sample_line,
          dayNumber = JNum 1, distance = JNum (- 5), elevation = JNum 100, error = None\<rparr>
   \<and> \<not> is_nonneg (distance \<lparr>index = 0, filename = JStr ''day-1.geojson'', ok = True,
          geojson = sample_line, dayNumber = JNum 1, distance = JNum (- 5),
          elevation = JNum 100, error = None\<rparr>)"
proof -
  have p: "getFirstFeatureProps sample_line = Inr JNull"
    by (simp add: getFirstFeatureProps_def sample_line_def bind_err_def)
  show ?thesis
    by (simp add: loadDayGeoJSON_def try_block_def bind_err_def p embedded_or_def
        negative_entry_def manual_or_zero_def)
qed

section \<open>The loader returns; all days are loaded in order\<close>

lemma loader_returns:
  assumes "\<not> toString_throws (entry_filename entry)"
  shows "\<exists>r. loadDayGeoJSON cd ce outcome entry i = Inr r"
  using assms by (cases entry) (auto simp: loadDayGeoJSON_def bind_err_def)

lemma try_block_keeps:
  assumes "try_block cd ce outcome nf md me result = Inl (e, r)
           \<or> try_block cd ce outcome nf md me result = Inr r"
  shows "index r = index result \<and> filename r = filename result"
proof (cases "fetch_failure outcome")
  case (Some m)
  from try_block_failure[OF Some] assms show ?thesis by auto
next
  case None
  then obtain s g where out: "outcome = Response True s (JsonParsed g)"
    using try_block_parsed by blast
  from assms show ?thesis unfolding out try_block_def
    by (auto simp: Let_def split: sum.splits if_splits)
qed

lemma loader_unfold:
  assumes "loadDayGeoJSON cd ce outcome entry i = Inr r"
  obtains md me where
    "(if isNewFormat entry then get_prop entry ''distance_miles'' else Inr JNull) = Inr md"
    "(if isNewFormat entry then get_prop entry ''elevation_gain_ft'' else Inr JNull) = Inr me"
    "r = (case try_block cd ce outcome (isNewFormat entry) md me
                 \<lparr>index = i, filename = entry_filename entry, ok = False, geojson = JNull,
                  dayNumber = JNum (real i + 1), distance = JNum 0,
                  elevation = JNum 0, error = None\<rparr> of
            Inl (e, r') \<Rightarrow> r'\<lparr>error := Some e\<rparr>
          | Inr r' \<Rightarrow> r')"
proof -
  from assms obtain fname md me where
    f: "(if isNewFormat entry then get_prop entry ''file'' else Inr entry) = Inr fname"
    and md: "(if isNewFormat entry then get_prop entry ''distance_miles'' else Inr JNull) = Inr md"
    and me: "(if isNewFormat entry then get_prop entry ''elevation_gain_ft'' else Inr JNull) = Inr me"
    by (auto simp: loadDayGeoJSON_def bind_err_def split: sum.splits)
  from f have fn: "fname = entry_filename entry" by (cases entry) auto
  from assms have "\<not> toString_throws fname"
    unfolding loadDayGeoJSON_def f md me bind_err_def by (auto split: if_splits)
  with assms have "r = (case try_block cd ce outcome (isNewFormat entry) md me
                 \<lparr>index = i, filename = fname, ok = False, geojson = JNull,
                  dayNumber = JNum (real i + 1), distance = JNum 0,
                  elevation = JNum 0, error = None\<rparr> of
            Inl (e, r') \<Rightarrow> r'\<lparr>error := Some e\<rparr>
          | Inr r' \<Rightarrow> r')"
    unfolding loadDayGeoJSON_def f md me bind_err_def by simp
  with fn md me that show ?thesis by blast
qed

lemma loader_index:
  assumes "loadDayGeoJSON cd ce outcome entry i = Inr r"
  shows "index r = i \<and> filename r = entry_filename entry"
proof -
  let ?res = "\<lparr>index = i, filename = entry_filename entry, ok = False, geojson = JNull,
                dayNumber = JNum (real i + 1), distance = JNum 0,
                elevation = JNum 0, error = None\<rparr>"
  from loader_unfold[OF assms] obtain md me where
    r: "r = (case try_block cd ce outcome (isNewFormat entry) md me ?res of
               Inl (e, r') \<Rightarrow> r'\<lparr>error := Some e\<rparr> | Inr r' \<Rightarrow> r')"
    by blast
  show ?thesis
  proof (cases "try_block cd ce outcome (isNewFormat entry) md me ?res")
    case (Inl a)
    then obtain e r' where a: "a = (e, r')" by (cases a)
    from try_block_keeps[of cd ce outcome "isNewFormat entry" md me ?res e r'] Inl a
    have "index r' = i \<and> filename r' = entry_filename entry" by simp
    with r Inl a show ?thesis by simp
  next
    case (Inr r')
    from try_block_keeps[of cd ce outcome "isNewFormat entry" md me ?res _ r'] Inr
    have "index r' = i \<and> filename r' = entry_filename entry" by simp
    with r Inr show ?thesis by simp
  qed
qed

lemma loader_failure:
  assumes "fetch_failure outcome = Some m"
    and "loadDayGeoJSON cd ce outcome entry i = Inr r"
  shows "r = \<lparr>index = i, filename = entry_filename entry, ok = False, geojson = JNull,
              dayNumber = JNum (real i + 1), distance = JNum 0, elevation = JNum 0,
              error = Some m\<rparr>"
proof -
  from loader_unfold[OF assms(2)] obtain md me where
    r: "r = (case try_block cd ce outcome (isNewFormat entry) md me
                 \<lparr>index = i, filename = entry_filename entry, ok = False, geojson = JNull,
                  dayNumber = JNum (real i + 1), distance = JNum 0,
                  elevation = JNum 0, error = None\<rparr> of
               Inl (e, r') \<Rightarrow> r'\<lparr>error := Some e\<rparr> | Inr r' \<Rightarrow> r')"
    by blast
  show ?thesis unfolding r try_block_failure[OF assms(1)] by simp
qed

lemma try_block_parsed_ok:
  assumes "try_block cd ce (Response True s (JsonParsed g)) nf md me result = Inl (e, r)
           \<or> try_block cd ce (Response True s (JsonParsed g)) nf md me result = Inr r"
  shows "ok r \<and> geojson r = g"
  using assms unfolding try_block_def
  by (auto simp: Let_def split: sum.splits if_splits)

text \<open>
  What holds of \<^verbatim>\<open>ok\<close> in every result: it is set exactly when request and parse
  succeed; a result that is not \<^verbatim>\<open>ok\<close> carries the message of the failure, no
  geometry and zero statistics; a result with geometry is \<^verbatim>\<open>ok\<close>.
\<close>

lemma loader_ok_iff:
  assumes "loadDayGeoJSON cd ce outcome entry i = Inr r"
  shows "(ok r \<longleftrightarrow> fetch_failure outcome = None)
         \<and> (\<not> ok r \<longrightarrow> error r = fetch_failure outcome \<and> geojson r = JNull
               \<and> distance r = JNum 0 \<and> elevation r = JNum 0)
         \<and> (geojson r \<noteq> JNull \<longrightarrow> ok r)"
proof (cases "fetch_failure outcome")
  case (Some m)
  from loader_failure[OF Some assms] Some show ?thesis by simp
next
  case None
  then obtain s g where out: "outcome = Response True s (JsonParsed g)"
    using try_block_parsed by blast
  let ?res = "\<lparr>index = i, filename = entry_filename entry, ok = False, geojson = JNull,
                dayNumber = JNum (real i + 1), distance = JNum 0,
                elevation = JNum 0, error = None\<rparr>"
  from loader_unfold[OF assms] obtain md me where
    r: "r = (case try_block cd ce outcome (isNewFormat entry) md me ?res of
               Inl (e, r') \<Rightarrow> r'\<lparr>error := Some e\<rparr> | Inr r' \<Rightarrow> r')"
    by blast
  have "ok r"
  proof (cases "try_block cd ce outcome (isNewFormat entry) md me ?res")
    case (Inl a)
    then obtain e r' where a: "a = (e, r')" by (cases a)
    from try_block_parsed_ok[of cd ce s g "isNewFormat entry" md me ?res e r'] Inl a out
    have "ok r'" by simp
    with r Inl a show ?thesis by simp
  next
    case (Inr r')
    from try_block_parsed_ok[of cd ce s g "isNewFormat entry" md me ?res _ r'] Inr out
    have "ok r'" by simp
    with r Inr show ?thesis by simp
  qed
  with None show ?thesis by simp
qed

lemma those_map_Some: "those (map Some vs) = Some vs"
  by (induction vs) auto

lemma settle_all_fulfilled:
  assumes "length vals = length vs"
    and "\<forall>j<length vs. vals ! j = Some (vs ! j) \<or> j \<in> set sched"
  shows "settle_all (map Inr vs) sched vals = Fulfilled vs"
  using assms
proof (induction sched arbitrary: vals)
  case Nil
  have "vals = map Some vs"
  proof (rule nth_equalityI)
    show "length vals = length (map Some vs)" using Nil.prems(1) by simp
  next
    fix j assume "j < length vals"
    with Nil.prems show "vals ! j = map Some vs ! j" by simp
  qed
  then show ?case by (simp add: those_map_Some)
next
  case (Cons i sched)
  show ?case
  proof (cases "i < length vs")
    case True
    have "settle_all (map Inr vs) sched (vals[i := Some (vs ! i)]) = Fulfilled vs"
    proof (rule Cons.IH)
      show "length (vals[i := Some (vs ! i)]) = length vs" using Cons.prems(1) by simp
    next
      show "\<forall>j<length vs. vals[i := Some (vs ! i)] ! j = Some (vs ! j) \<or> j \<in> set sched"
      proof (intro allI impI)
        fix j assume j: "j < length vs"
        show "vals[i := Some (vs ! i)] ! j = Some (vs ! j) \<or> j \<in> set sched"
        proof (cases "j = i")
          case True
          with j Cons.prems(1) show ?thesis by simp
        next
          case False
          with Cons.prems(2) j show ?thesis by auto
        qed
      qed
    qed
    with True show ?thesis by simp
  next
    case False
    have "settle_all (map Inr vs) sched vals = Fulfilled vs"
    proof (rule Cons.IH[OF Cons.prems(1)])
      show "\<forall>j<length vs. vals ! j = Some (vs ! j) \<or> j \<in> set sched"
      proof (intro allI impI)
        fix j assume j: "j < length vs"
        with False have "j \<noteq> i" by auto
        with Cons.prems(2) j show "vals ! j = Some (vs ! j) \<or> j \<in> set sched" by auto
      qed
    qed
    with False show ?thesis by simp
  qed
qed

lemma promise_all_fulfilled:
  assumes "{..<length vs} \<subseteq> set sched"
  shows "promise_all sched (map Inr vs) = Fulfilled vs"
proof -
  have "settle_all (map Inr vs) sched (replicate (length vs) None) = Fulfilled vs"
  proof (rule settle_all_fulfilled)
    show "length (replicate (length vs) None) = length vs" by simp
  next
    from assms show "\<forall>j<length vs. replicate (length vs) None ! j = Some (vs ! j) \<or> j \<in> set sched"
      by auto
  qed
  then show ?thesis by (simp add: promise_all_def)
qed

lemma all_Inr_map: "\<forall>x\<in>set ps. \<exists>r. x = Inr r \<Longrightarrow> \<exists>rs. ps = map Inr rs"
proof (induction ps)
  case Nil
  then show ?case by simp
next
  case (Cons p ps)
  from Cons.prems obtain r where r: "p = Inr r" by auto
  from Cons obtain rs where rs: "ps = map Inr rs" by auto
  from r rs have "p # ps = map Inr (r # rs)" by simp
  then show ?case by (rule exI[of _ "r # rs"])
qed

lemma loadAllDays_fulfilled:
  assumes ld: "list_all (\<lambda>entry. \<not> toString_throws (entry_filename entry)) dayFiles"
    and sc: "{..<length dayFiles} \<subseteq> set sched"
  shows "\<exists>rs. loadAllDays sched net cd ce dayFiles = Fulfilled rs
            \<and> length rs = length dayFiles
            \<and> (\<forall>j<length dayFiles. loadDayGeoJSON cd ce (net j) (dayFiles ! j) j = Inr (rs ! j))"
proof -
  define ps where "ps = map (\<lambda>(entry, idx). loadDayGeoJSON cd ce (net idx) entry idx)
               (zip dayFiles [0..<length dayFiles])"
  have len: "length ps = length dayFiles" by (simp add: ps_def)
  have nth: "ps ! j = loadDayGeoJSON cd ce (net j) (dayFiles ! j) j" if "j < length dayFiles" for j
    using that by (simp add: ps_def)
  have "\<forall>x\<in>set ps. \<exists>r. x = Inr r"
  proof
    fix x assume "x \<in> set ps"
    then obtain j where j: "j < length ps" "x = ps ! j"
      by (auto simp: in_set_conv_nth)
    from ld j(1) len have "\<not> toString_throws (entry_filename (dayFiles ! j))"
      by (simp add: list_all_length)
    from loader_returns[OF this, of cd ce "net j" j] obtain r
      where "loadDayGeoJSON cd ce (net j) (dayFiles ! j) j = Inr r" by blast
    with nth[of j] j len show "\<exists>r. x = Inr r" by simp
  qed
  from all_Inr_map[OF this] obtain rs where rs: "ps = map Inr rs" by blast
  with len have lr: "length rs = length dayFiles" by simp
  from sc lr have "promise_all sched (map Inr rs) = Fulfilled rs"
    by (intro promise_all_fulfilled) simp
  then have 1: "loadAllDays sched net cd ce dayFiles = Fulfilled rs"
    by (simp add: loadAllDays_def ps_def[symmetric] rs)
  have "\<forall>j<length dayFiles. loadDayGeoJSON cd ce (net j) (dayFiles ! j) j = Inr (rs ! j)"
  proof (intro allI impI)
    fix j assume j: "j < length dayFiles"
    from nth[OF j] rs lr j show "loadDayGeoJSON cd ce (net j) (dayFiles ! j) j = Inr (rs ! j)"
      by simp
  qed
  with 1 lr show ?thesis by blast
qed

lemma aggregate_drop_failed:
  assumes "k < length rs" and "\<not> ok (rs ! k)"
  shows "aggregate rnd rs = aggregate rnd (take k rs @ drop (Suc k) rs)"
proof -
  from assms(1) have "rs = take k rs @ rs ! k # drop (Suc k) rs" by (rule id_take_nth_drop)
  then have "filter ok rs = filter ok (take k rs @ rs ! k # drop (Suc k) rs)" by simp
  also have "\<dots> = filter ok (take k rs @ drop (Suc k) rs)" using assms(2) by simp
  finally show ?thesis by (simp add: aggregate_def)
qed

text \<open>
  Claim C2. A day entry whose file name can be put into the URL (every bare string,
  and every object whose \<^verbatim>\<open>file\<close> is a string, a number or absent) is loaded
  without a throw, whatever the environment answers and whatever the calculator
  functions do. When the request is rejected, the status is not a success or the body
  does not parse, the result is exactly the initial object with the message in
  \<open>error\<close>. For a list of such entries \<^verbatim>\<open>loadAllDays\<close> delivers one result per
  entry, each the result of loading that entry with its own answer alone; a day that
  failed is not \<^verbatim>\<open>ok\<close> and the totals are those of the list without it, whatever
  the rounding of the arithmetic.
\<close>

theorem loader_never_throws:
  "(\<not> toString_throws (entry_filename entry) \<longrightarrow>
      (\<exists>r. loadDayGeoJSON cd ce outcome entry i = Inr r
         \<and> (\<forall>m. fetch_failure outcome = Some m \<longrightarrow>
               r = \<lparr>index = i, filename = entry_filename entry, ok = False, geojson = JNull,
                     dayNumber = JNum (real i + 1), distance = JNum 0, elevation = JNum 0,
                     error = Some m\<rparr>)))
   \<and> (list_all (\<lambda>entry. \<not> toString_throws (entry_filename entry)) dayFiles
        \<and> {..<length dayFiles} \<subseteq> set sched \<longrightarrow>
      (\<exists>rs. loadAllDays sched net cd ce dayFiles = Fulfilled rs
         \<and> length rs = length dayFiles
         \<and> (\<forall>j<length dayFiles.
               loadDayGeoJSON cd ce (net j) (dayFiles ! j) j = Inr (rs ! j)
               \<and> (\<forall>m. fetch_failure (net j) = Some m \<longrightarrow>
                     \<not> ok (rs ! j) \<and> aggregate rnd rs = aggregate rnd (take j rs @ drop (Suc j) rs)))))"
proof (intro conjI impI)
  assume l: "\<not> toString_throws (entry_filename entry)"
  from loader_returns[OF l, of cd ce outcome i] obtain r
    where r: "loadDayGeoJSON cd ce outcome entry i = Inr r" by blast
  from loader_failure[OF _ r] have
    "\<forall>m. fetch_failure outcome = Some m \<longrightarrow>
        r = \<lparr>index = i, filename = entry_filename entry, ok = False, geojson = JNull,
              dayNumber = JNum (real i + 1), distance = JNum 0, elevation = JNum 0,
              error = Some m\<rparr>" by blast
  with r show "\<exists>r. loadDayGeoJSON cd ce outcome entry i = Inr r
         \<and> (\<forall>m. fetch_failure outcome = Some m \<longrightarrow>
               r = \<lparr>index = i, filename = entry_filename entry, ok = False, geojson = JNull,
                     dayNumber = JNum (real i + 1), distance = JNum 0, elevation = JNum 0,
                     error = Some m\<rparr>)" by blast
next
  assume "list_all (\<lambda>entry. \<not> toString_throws (entry_filename entry)) dayFiles
        \<and> {..<length dayFiles} \<subseteq> set sched"
  then have h: "list_all (\<lambda>entry. \<not> toString_throws (entry_filename entry)) dayFiles"
    "{..<length dayFiles} \<subseteq> set sched" by auto
  from loadAllDays_fulfilled[OF h, of net cd ce] obtain rs where
    rs: "loadAllDays sched net cd ce dayFiles = Fulfilled rs" "length rs = length dayFiles"
    and each: "\<forall>j<length dayFiles. loadDayGeoJSON cd ce (net j) (dayFiles ! j) j = Inr (rs ! j)"
    by blast
  have "\<forall>j<length dayFiles.
               loadDayGeoJSON cd ce (net j) (dayFiles ! j) j = Inr (rs ! j)
               \<and> (\<forall>m. fetch_failure (net j) = Some m \<longrightarrow>
                     \<not> ok (rs ! j) \<and> aggregate rnd rs = aggregate rnd (take j rs @ drop (Suc j) rs))"
  proof (intro allI impI conjI)
    fix j assume j: "j < length dayFiles"
    with each show ld: "loadDayGeoJSON cd ce (net j) (dayFiles ! j) j = Inr (rs ! j)" by simp
    fix m assume m: "fetch_failure (net j) = Some m"
    from loader_failure[OF m ld] show nok: "\<not> ok (rs ! j)" by (simp add: day_result.defs) 
    from j rs(2) have "j < length rs" by simp
    from aggregate_drop_failed[OF this nok, of rnd]
    show "aggregate rnd rs = aggregate rnd (take j rs @ drop (Suc j) rs)" .
  qed
  with rs show "\<exists>rs. loadAllDays sched net cd ce dayFiles = Fulfilled rs
         \<and> length rs = length dayFiles
         \<and> (\<forall>j<length dayFiles.
               loadDayGeoJSON cd ce (net j) (dayFiles ! j) j = Inr (rs ! j)
               \<and> (\<forall>m. fetch_failure (net j) = Some m \<longrightarrow>
                     \<not> ok (rs ! j) \<and> aggregate rnd rs = aggregate rnd (take j rs @ drop (Suc j) rs)))"
    by blast
qed

lemma three_days_loadable:
  "list_all (\<lambda>entry. \<not> toString_throws (entry_filename entry)) three_days"
  by (simp add: three_days_def)

lemma three_days_schedule: "{..<length three_days} \<subseteq> set [2, 0, 1]"
  by (auto simp: three_days_def less_Suc_eq numeral_3_eq_3)

theorem loader_never_throws_witness:
  "\<not> toString_throws (entry_filename (JStr ''day-2.geojson''))
   \<and> loadDayGeoJSON (const_calc 99) (const_calc 10) (second_missing 1) (JStr ''day-2.geojson'') 1
       = Inr \<lparr>index = 1, filename = JStr ''day-2.geojson'', ok = False, geojson = JNull,
              dayNumber = JNum 2, distance = JNum 0, elevation = JNum 0,
              error = Some (HttpMsg 404)\<rparr>
   \<and> list_all (\<lambda>entry. \<not> toString_throws (entry_filename entry)) three_days
   \<and> {..<length three_days} \<subseteq> set [2, 0, 1]
   \<and> (\<exists>rs. loadAllDays [2, 0, 1] second_missing (const_calc 99) (const_calc 10) three_days
             = Fulfilled rs
          \<and> length rs = 3 \<and> \<not> ok (rs ! 1)
          \<and> aggregate exact rs = aggregate exact (take 1 rs @ drop (Suc 1) rs))"
proof -
  note inst = loader_never_throws[of "JStr ''day-2.geojson''" "const_calc 99" "const_calc 10"
      "second_missing 1" 1 three_days "[2, 0, 1]" second_missing exact]
  have a: "\<not> toString_throws (entry_filename (JStr ''day-2.geojson''))" by simp
  have f: "fetch_failure (second_missing 1) = Some (HttpMsg 404)" by (simp add: second_missing_def)
  from inst a f have b: "loadDayGeoJSON (const_calc 99) (const_calc 10) (second_missing 1) (JStr ''day-2.geojson'') 1
       = Inr \<lparr>index = 1, filename = JStr ''day-2.geojson'', ok = False, geojson = JNull,
              dayNumber = JNum 2, distance = JNum 0, elevation = JNum 0,
              error = Some (HttpMsg 404)\<rparr>"
    by auto
  from inst three_days_loadable three_days_schedule obtain rs where
    rs: "loadAllDays [2, 0, 1] second_missing (const_calc 99) (const_calc 10) three_days = Fulfilled rs"
     "length rs = length three_days"
     and each: "\<forall>j<length three_days. 
               loadDayGeoJSON (const_calc 99) (const_calc 10) (second_missing j) (three_days ! j) j = Inr (rs ! j)
               \<and> (\<forall>m. fetch_failure (second_missing j) = Some m \<longrightarrow>
                     \<not> ok (rs ! j) \<and> aggregate exact rs = aggregate exact (take j rs @ drop (Suc j) rs))"
    by blast
  have "(1::nat) < length three_days" by (simp add: three_days_def)
  with each f have "\<not> ok (rs ! 1) \<and> aggregate exact rs = aggregate exact (take 1 rs @ drop (Suc 1) rs)"
    by blast
  moreover from rs(2) have "length rs = 3" by (simp add: three_days_def)
  ultimately show ?thesis using a b three_days_loadable three_days_schedule rs(1) by blast
qed

text \<open>
  Claim C7. For a list of day entries and any order of completion in which every
  load completes, the list that \<^verbatim>\<open>loadAllDays\<close> delivers is as long as the list of
  entries, and its element at position \<open>i\<close> is the result of loading entry \<open>i\<close>,
  whose \<open>index\<close> is \<open>i\<close>.
\<close>

theorem loadAllDays_order:
  assumes "list_all (\<lambda>entry. \<not> toString_throws (entry_filename entry)) dayFiles"
    and "{..<length dayFiles} \<subseteq> set sched"
  shows "\<exists>rs. loadAllDays sched net cd ce dayFiles = Fulfilled rs
            \<and> length rs = length dayFiles
            \<and> (\<forall>i<length dayFiles.
                  loadDayGeoJSON cd ce (net i) (dayFiles ! i) i = Inr (rs ! i)
                  \<and> index (rs ! i) = i)"
proof -
  from loadAllDays_fulfilled[OF assms, of net cd ce] obtain rs where
    rs: "loadAllDays sched net cd ce dayFiles = Fulfilled rs" "length rs = length dayFiles"
    and each: "\<forall>j<length dayFiles. loadDayGeoJSON cd ce (net j) (dayFiles ! j) j = Inr (rs ! j)"
    by blast
  have "\<forall>i<length dayFiles.
                  loadDayGeoJSON cd ce (net i) (dayFiles ! i) i = Inr (rs ! i)
                  \<and> index (rs ! i) = i"
  proof (intro allI impI)
    fix i assume "i < length dayFiles"
    with each have ld: "loadDayGeoJSON cd ce (net i) (dayFiles ! i) i = Inr (rs ! i)" by simp
    with loader_index[OF ld] show "loadDayGeoJSON cd ce (net i) (dayFiles ! i) i = Inr (rs ! i)
                  \<and> index (rs ! i) = i" by simp
  qed
  with rs show ?thesis by blast
qed

theorem loadAllDays_order_witness:
  "list_all (\<lambda>entry. \<not> toString_throws (entry_filename entry)) three_days
   \<and> {..<length three_days} \<subseteq> set [2, 0, 1]
   \<and> (\<exists>rs. loadAllDays [2, 0, 1] second_missing (const_calc 99) (const_calc 10) three_days
             = Fulfilled rs
          \<and> length rs = 3
          \<and> index (rs ! 0) = 0 \<and> index (rs ! 1) = 1 \<and> index (rs ! 2) = 2)"
proof -
  from loadAllDays_order[OF three_days_loadable three_days_schedule,
      of second_missing "const_calc 99" "const_calc 10"]
  obtain rs where
    rs: "loadAllDays [2, 0, 1] second_missing (const_calc 99) (const_calc 10) three_days = Fulfilled rs"
     "length rs = length three_days"
     and each: "\<forall>i<length three_days.
               loadDayGeoJSON (const_calc 99) (const_calc 10) (second_missing i) (three_days ! i) i = Inr (rs ! i)
               \<and> index (rs ! i) = i"
    by blast
  have l: "length three_days = 3" by (simp add: three_days_def)
  with each have "index (rs ! 0) = 0 \<and> index (rs ! 1) = 1 \<and> index (rs ! 2) = 2" by simp
  with rs l three_days_loadable three_days_schedule show ?thesis by auto
qed

section \<open>Totals\<close>









text \<open>
  A list whose total distance is neither 0 nor negative and yet fails the test of
  line 80, for every rounding: the infinities of two literals beyond the range of
  doubles add up to \<^verbatim>\<open>NaN\<close>.
\<close>

lemma infinite_distances_nan:
  "aggregate rnd
     [negative_result\<lparr>distance := JPosInf\<rparr>, negative_result\<lparr>distance := JNegInf\<rparr>]
   = Some \<lparr>totalDistance = NotANumber,
           totalElevation = double_add rnd (double_add rnd (Finite 0) (Finite 100)) (Finite 100),
           vertPerMile = None\<rparr>"
  by (simp add: aggregate_def negative_result_def)

section \<open>A day list that is not an array\<close>

lemma day_files_not_array: "\<not> isArray days \<Longrightarrow> day_files days = []"
  by (cases days) auto

lemma render_header_cong:
  assumes "\<forall>k. k \<noteq> ''days'' \<longrightarrow> get_prop meta' k = get_prop meta k"
  shows "render_header has_el fd cet tripId meta' = render_header has_el fd cet tripId meta"
proof -
  from assms have "get_prop meta' ''title'' = get_prop meta ''title''"
    "get_prop meta' ''description'' = get_prop meta ''description''"
    "get_prop meta' ''start_date'' = get_prop meta ''start_date''"
    "get_prop meta' ''start_time'' = get_prop meta ''start_time''"
    "get_prop meta' ''end_date'' = get_prop meta ''end_date''"
    "get_prop meta' ''end_time'' = get_prop meta ''end_time''"
    by simp_all
  then show ?thesis by (simp only: render_header_def)
qed

lemma initTripPage_no_days:
  assumes "get_prop meta ''days'' = Inr days" and "day_files days = []"
  shows "initTripPage has_el fd cet sched net cd ce tripId (Response True s (JsonParsed meta))
     = (case render_header has_el fd cet tripId meta of
          (header, Some e) \<Rightarrow> (header, Uncaught e)
        | (header, None) \<Rightarrow>
            (header @ showMapError has_el ''No day files listed in meta.json.'', Returned))"
  using assms by (simp add: initTripPage_def split: prod.splits option.splits)

text \<open>
  Claim C10. When \<^verbatim>\<open>days\<close> is missing or is not an array, the run is the run on the
  same metadata with \<^verbatim>\<open>days\<close> the empty array, whatever the environment would
  answer to day requests and whatever the calculator functions are: no day is
  loaded. When the header renders without a throw, the run consists of the header
  followed by the map error \<^verbatim>\<open>No day files listed in meta.json.\<close> and returns; it
  does not go on to the totals.
\<close>

theorem days_not_array_like_empty:
  assumes "get_prop meta ''days'' = Inr days" and "\<not> isArray days"
    and "get_prop meta' ''days'' = Inr (JArr [])"
    and "\<forall>k. k \<noteq> ''days'' \<longrightarrow> get_prop meta' k = get_prop meta k"
  shows "initTripPage has_el fd cet sched net cd ce tripId (Response True s (JsonParsed meta))
         = initTripPage has_el fd cet sched' net' cd' ce' tripId (Response True s' (JsonParsed meta'))
       \<and> (\<forall>header. render_header has_el fd cet tripId meta = (header, None) \<longrightarrow>
            initTripPage has_el fd cet sched net cd ce tripId (Response True s (JsonParsed meta))
            = (header @ showMapError has_el ''No day files listed in meta.json.'', Returned))"
proof -
  from assms(2) have e: "day_files days = []" by (rule day_files_not_array)
  have e': "day_files (JArr []) = []" by simp
  note a = initTripPage_no_days[OF assms(1) e, of has_el fd cet sched net cd ce tripId s]
  note b = initTripPage_no_days[OF assms(3) e', of has_el fd cet sched' net' cd' ce' tripId s']
  note h = render_header_cong[OF assms(4), of has_el fd cet tripId]
  from a b h have 1: "initTripPage has_el fd cet sched net cd ce tripId (Response True s (JsonParsed meta))
         = initTripPage has_el fd cet sched' net' cd' ce' tripId (Response True s' (JsonParsed meta'))"
    by simp
  from a have 2: "\<forall>header. render_header has_el fd cet tripId meta = (header, None) \<longrightarrow>
            initTripPage has_el fd cet sched net cd ce tripId (Response True s (JsonParsed meta))
            = (header @ showMapError has_el ''No day files listed in meta.json.'', Returned)"
    by simp
  from 1 2 show ?thesis by (rule conjI)
qed

lemma meta_days_string_header:
  "render_header every_element echo_date no_elapsed ''long-trail'' meta_days_string
   = ([SetText ''trip-title'' (JStr ''Long Trail''), SetText ''trip-description'' (JStr []),
       SetText ''trip-start-date'' JUndefined, SetText ''trip-end-date'' JUndefined,
       SetText ''trip-elapsed'' (JStr []), SetTitle (JStr ''Long Trail'')], None)"
  by (simp add: render_header_def meta_days_string_def bind_err_def setTextContent_def
      every_element_def echo_date_def no_elapsed_def js_or_def)

theorem days_not_array_like_empty_witness:
  "get_prop meta_days_string ''days'' = Inr (JStr ''day-1.geojson'')
   \<and> \<not> isArray (JStr ''day-1.geojson'')
   \<and> get_prop meta_days_empty ''days'' = Inr (JArr [])
   \<and> initTripPage every_element echo_date no_elapsed [] all_fine (const_calc 0) (const_calc 0)
        ''long-trail'' (Response True 200 (JsonParsed meta_days_string))
      = initTripPage every_element echo_date no_elapsed [0] second_missing (const_calc 99)
        (const_calc 10) ''long-trail'' (Response True 200 (JsonParsed meta_days_empty))
   \<and> initTripPage every_element echo_date no_elapsed [] all_fine (const_calc 0) (const_calc 0)
        ''long-trail'' (Response True 200 (JsonParsed meta_days_string))
      = ([SetText ''trip-title'' (JStr ''Long Trail''), SetText ''trip-description'' (JStr []),
          SetText ''trip-start-date'' JUndefined, SetText ''trip-end-date'' JUndefined,
          SetText ''trip-elapsed'' (JStr []), SetTitle (JStr ''Long Trail''),
          MapError ''No day files listed in meta.json.''], Returned)"
proof -
  have 1: "get_prop meta_days_string ''days'' = Inr (JStr ''day-1.geojson'')"
    by (simp add: meta_days_string_def)
  have 2: "\<not> isArray (JStr ''day-1.geojson'')" by simp
  have 3: "get_prop meta_days_empty ''days'' = Inr (JArr [])"
    by (simp add: meta_days_empty_def)
  have 4: "\<forall>k. k \<noteq> ''days'' \<longrightarrow> get_prop meta_days_empty k = get_prop meta_days_string k"
    by (simp add: meta_days_empty_def meta_days_string_def)
  note inst = days_not_array_like_empty[OF 1 2 3 4, of every_element echo_date no_elapsed
      "[]" all_fine "const_calc 0" "const_calc 0" "''long-trail''" 200
      "[0]" second_missing "const_calc 99" "const_calc 10" 200]
  from inst have a: "initTripPage every_element echo_date no_elapsed [] all_fine (const_calc 0) (const_calc 0)
        ''long-trail'' (Response True 200 (JsonParsed meta_days_string))
      = initTripPage every_element echo_date no_elapsed [0] second_missing (const_calc 99)
        (const_calc 10) ''long-trail'' (Response True 200 (JsonParsed meta_days_empty))"
    by (rule conjunct1)
  note rest = conjunct2[OF inst]
  from rest[rule_format, OF meta_days_string_header]
  have b: "initTripPage every_element echo_date no_elapsed [] all_fine (const_calc 0) (const_calc 0)
        ''long-trail'' (Response True 200 (JsonParsed meta_days_string))
      = ([SetText ''trip-title'' (JStr ''Long Trail''), SetText ''trip-description'' (JStr []),
          SetText ''trip-start-date'' JUndefined, SetText ''trip-end-date'' JUndefined,
          SetText ''trip-elapsed'' (JStr []), SetTitle (JStr ''Long Trail'')]
         @ showMapError every_element ''No day files listed in meta.json.'', Returned)" .
  then have c: "initTripPage every_element echo_date no_elapsed [] all_fine (const_calc 0) (const_calc 0)
        ''long-trail'' (Response True 200 (JsonParsed meta_days_string))
      = ([SetText ''trip-title'' (JStr ''Long Trail''), SetText ''trip-description'' (JStr []),
          SetText ''trip-start-date'' JUndefined, SetText ''trip-end-date'' JUndefined,
          SetText ''trip-elapsed'' (JStr []), SetTitle (JStr ''Long Trail''),
          MapError ''No day files listed in meta.json.''], Returned)"
    by (simp add: showMapError_def every_element_def)
  from 1 2 3 a c show ?thesis by simp
qed

section \<open>The extractor by kind of document\<close>

lemma scan_features_first:
  "map feature_coords fs = map (\<lambda>c. Inr (JArr c)) cs \<Longrightarrow>
   scan_features fs = Inr (if first_nonempty cs = [] then None else Some (JArr (first_nonempty cs)))"
proof (induction fs arbitrary: cs)
  case Nil
  then show ?case by simp
next
  case (Cons f fs)
  then obtain c cs' where cs: "cs = c # cs'" by (cases cs) auto
  with Cons.prems have h: "feature_coords f = Inr (JArr c)"
    and t: "map feature_coords fs = map (\<lambda>c. Inr (JArr c)) cs'" by auto
  from h obtain g where g: "get_prop f ''geometry'' = Inr g" "extractCoordsFromGeometry g = Inr (JArr c)"
    by (auto simp: feature_coords_def bind_err_def split: sum.splits)
  show ?case using Cons.IH[OF t] g cs by (simp add: bind_err_def)
qed

lemma get_prop_type_truthy: "get_prop g ''type'' = Inr (JStr k) \<Longrightarrow> truthy g"
  by (cases g) (auto split: if_splits)

lemma flat_segments: "concat (map (flat_members \<circ> JArr) segs) = concat segs"
  by (induction segs) auto

lemma geometry_line:
  assumes "get_prop g ''type'' = Inr (JStr ''LineString'')"
    and "get_prop g ''coordinates'' = Inr (JArr cs)"
  shows "extractCoordsFromGeometry g = Inr (JArr cs)"
  using assms get_prop_type_truthy[OF assms(1)]
  by (simp add: extractCoordsFromGeometry_def bind_err_def js_or_def)

lemma geometry_multiline:
  assumes "get_prop g ''type'' = Inr (JStr ''MultiLineString'')"
    and "get_prop g ''coordinates'' = Inr (JArr (map JArr segs))"
  shows "extractCoordsFromGeometry g = Inr (JArr (concat segs))"
  using assms get_prop_type_truthy[OF assms(1)]
  by (simp add: extractCoordsFromGeometry_def bind_err_def js_or_def flat_segments)

lemma geometry_other:
  assumes "get_prop g ''type'' = Inr t" and "t \<noteq> JStr ''LineString''"
    and "t \<noteq> JStr ''MultiLineString''"
  shows "extractCoordsFromGeometry g = Inr (JArr [])"
  using assms by (simp add: extractCoordsFromGeometry_def bind_err_def)

lemma extract_bare:
  assumes "get_prop g ''type'' = Inr t" and "t \<noteq> JStr ''FeatureCollection''"
    and "t \<noteq> JStr ''Feature''"
  shows "extractCoords g = extractCoordsFromGeometry g"
proof (cases "truthy g")
  case True
  with assms show ?thesis by (simp add: extractCoords_def bind_err_def)
next
  case False
  then show ?thesis by (simp add: extractCoords_def extractCoordsFromGeometry_def)
qed

lemma extract_collection:
  assumes "get_prop g ''type'' = Inr (JStr ''FeatureCollection'')"
    and "get_prop g ''features'' = Inr (JArr fs)"
    and "map feature_coords fs = map (\<lambda>c. Inr (JArr c)) cs"
  shows "extractCoords g = Inr (JArr (first_nonempty cs))"
proof -
  note tr = get_prop_type_truthy[OF assms(1)]
  note sc = scan_features_first[OF assms(3)]
  have o: "extractCoordsFromGeometry g = Inr (JArr [])"
    using assms(1) by (intro geometry_other) auto
  show ?thesis
  proof (cases "first_nonempty cs = []")
    case True
    with tr sc assms(1,2) o show ?thesis
      by (simp add: extractCoords_def bind_err_def js_or_def)
  next
    case False
    with tr sc assms(1,2) show ?thesis
      by (simp add: extractCoords_def bind_err_def js_or_def)
  qed
qed

lemma extract_feature:
  assumes "get_prop g ''type'' = Inr (JStr ''Feature'')"
  shows "extractCoords g = feature_coords g"
  using assms get_prop_type_truthy[OF assms]
  by (simp add: extractCoords_def bind_err_def feature_coords_def)

text \<open>
  Claim C5. What \<^verbatim>\<open>extractCoords\<close> returns, by the kind of the document. For a
  feature collection whose features each yield a sequence: the first sequence, in
  listed order, that is not empty, nothing of the features before it. For a feature:
  the extraction of its geometry. For a line: its coordinates as they are. For a
  geometry of several lines: the members' sequences joined in listed order. For any
  other kind: the empty sequence. The geometry of a feature is extracted by the same
  three rules.
\<close>

theorem extractCoords_by_kind:
  "(get_prop g ''type'' = Inr (JStr ''FeatureCollection'')
      \<and> get_prop g ''features'' = Inr (JArr fs)
      \<and> map feature_coords fs = map (\<lambda>c. Inr (JArr c)) cs
      \<longrightarrow> extractCoords g = Inr (JArr (first_nonempty cs)))
   \<and> (get_prop g ''type'' = Inr (JStr ''Feature'')
      \<longrightarrow> extractCoords g = bind_err (get_prop g ''geometry'') extractCoordsFromGeometry)
   \<and> (get_prop g ''type'' = Inr (JStr ''LineString'')
      \<and> get_prop g ''coordinates'' = Inr (JArr line)
      \<longrightarrow> extractCoords g = Inr (JArr line) \<and> extractCoordsFromGeometry g = Inr (JArr line))
   \<and> (get_prop g ''type'' = Inr (JStr ''MultiLineString'')
      \<and> get_prop g ''coordinates'' = Inr (JArr (map JArr segs))
      \<longrightarrow> extractCoords g = Inr (JArr (concat segs))
          \<and> extractCoordsFromGeometry g = Inr (JArr (concat segs)))
   \<and> (get_prop g ''type'' = Inr t
      \<and> t \<noteq> JStr ''LineString'' \<and> t \<noteq> JStr ''MultiLineString''
      \<longrightarrow> extractCoordsFromGeometry g = Inr (JArr [])
          \<and> (t \<noteq> JStr ''FeatureCollection'' \<and> t \<noteq> JStr ''Feature''
              \<longrightarrow> extractCoords g = Inr (JArr [])))"
proof (intro conjI impI)
  assume "get_prop g ''type'' = Inr (JStr ''FeatureCollection'')
      \<and> get_prop g ''features'' = Inr (JArr fs)
      \<and> map feature_coords fs = map (\<lambda>c. Inr (JArr c)) cs"
  then show "extractCoords g = Inr (JArr (first_nonempty cs))"
    using extract_collection by blast
next
  assume "get_prop g ''type'' = Inr (JStr ''Feature'')"
  then show "extractCoords g = bind_err (get_prop g ''geometry'') extractCoordsFromGeometry"
    using extract_feature by (simp add: feature_coords_def)
next
  assume a: "get_prop g ''type'' = Inr (JStr ''LineString'')
      \<and> get_prop g ''coordinates'' = Inr (JArr line)"
  then show "extractCoordsFromGeometry g = Inr (JArr line)" by (simp add: geometry_line)
  with a show "extractCoords g = Inr (JArr line)"
    using extract_bare[of g "JStr ''LineString''"] by simp
next
  assume a: "get_prop g ''type'' = Inr (JStr ''MultiLineString'')
      \<and> get_prop g ''coordinates'' = Inr (JArr (map JArr segs))"
  then show "extractCoordsFromGeometry g = Inr (JArr (concat segs))"
    by (simp add: geometry_multiline)
  with a show "extractCoords g = Inr (JArr (concat segs))"
    using extract_bare[of g "JStr ''MultiLineString''"] by simp
next
  assume a: "get_prop g ''type'' = Inr t
      \<and> t \<noteq> JStr ''LineString'' \<and> t \<noteq> JStr ''MultiLineString''"
  then show o: "extractCoordsFromGeometry g = Inr (JArr [])" by (simp add: geometry_other)
  assume "t \<noteq> JStr ''FeatureCollection'' \<and> t \<noteq> JStr ''Feature''"
  with a o show "extractCoords g = Inr (JArr [])"
    using extract_bare[of g t] by simp
qed

lemma mixed_features_coords:
  "map feature_coords mixed_features
     = map (\<lambda>c. Inr (JArr c))
         [ [], [], [JArr [JNum 0, JNum 0, JNum 10], JArr [JNum 0, JNum 1, JNum 20] ],
          [JArr [JNum 7, JNum 8] ] ]"
  by (simp add: mixed_features_def feature_coords_def bind_err_def sample_line_def
      extractCoordsFromGeometry_def js_or_def)

theorem extractCoords_by_kind_witness:
  "get_prop mixed_collection ''type'' = Inr (JStr ''FeatureCollection'')
   \<and> get_prop mixed_collection ''features'' = Inr (JArr mixed_features)
   \<and> map feature_coords mixed_features
        = map (\<lambda>c. Inr (JArr c))
            [ [], [], [JArr [JNum 0, JNum 0, JNum 10], JArr [JNum 0, JNum 1, JNum 20] ],
             [JArr [JNum 7, JNum 8] ] ]
   \<and> extractCoords mixed_collection
        = Inr (JArr [JArr [JNum 0, JNum 0, JNum 10], JArr [JNum 0, JNum 1, JNum 20] ])
   \<and> get_prop two_segments ''type'' = Inr (JStr ''MultiLineString'')
   \<and> extractCoords two_segments
        = Inr (JArr [JArr [JNum 0, JNum 0], JArr [JNum 0, JNum 1], JArr [JNum 5, JNum 5] ])"
proof -
  have 1: "get_prop mixed_collection ''type'' = Inr (JStr ''FeatureCollection'')"
    by (simp add: mixed_collection_def)
  have 2: "get_prop mixed_collection ''features'' = Inr (JArr mixed_features)"
    by (simp add: mixed_collection_def)
  note coll = conjunct1[OF extractCoords_by_kind[of mixed_collection mixed_features
        "[ [], [], [JArr [JNum 0, JNum 0, JNum 10], JArr [JNum 0, JNum 1, JNum 20] ],
          [JArr [JNum 7, JNum 8] ] ]"] ]
  from coll[rule_format, OF conjI[OF 1 conjI[OF 2 mixed_features_coords] ] ]
  have 3: "extractCoords mixed_collection
        = Inr (JArr [JArr [JNum 0, JNum 0, JNum 10], JArr [JNum 0, JNum 1, JNum 20] ])"
    by simp
  have 4: "get_prop two_segments ''type'' = Inr (JStr ''MultiLineString'')"
    by (simp add: two_segments_def)
  have 5: "get_prop two_segments ''coordinates''
      = Inr (JArr (map JArr [ [JArr [JNum 0, JNum 0], JArr [JNum 0, JNum 1] ], [JArr [JNum 5, JNum 5] ] ]))"
    by (simp add: two_segments_def)
  note multi = conjunct1[OF conjunct2[OF conjunct2[OF conjunct2[OF
        extractCoords_by_kind[of two_segments _ _ _
          "[ [JArr [JNum 0, JNum 0], JArr [JNum 0, JNum 1] ], [JArr [JNum 5, JNum 5] ] ]"] ] ] ] ]
  from multi[rule_format, OF conjI[OF 4 5] ]
  have 6: "extractCoords two_segments
        = Inr (JArr [JArr [JNum 0, JNum 0], JArr [JNum 0, JNum 1], JArr [JNum 5, JNum 5] ])"
    by simp
  from 1 2 mixed_features_coords 3 4 6 show ?thesis by simp
qed

section \<open>The extractor returns on every document of the described shape\<close>

text \<open>
  The hypotheses of the theorems on Legacy entries and on the extractor ask that the
  extractor, or every feature, yields a sequence. Every geometry document of the
  shape the specification describes meets them.
\<close>

lemma field_get_prop: "field g k = v \<Longrightarrow> v \<noteq> JUndefined \<Longrightarrow> get_prop g k = Inr v"
  by (cases "get_prop g k") (auto simp: field_def)

lemma field_type_get: "field g ''type'' \<noteq> JUndefined \<Longrightarrow> get_prop g ''type'' = Inr (field g ''type'')"
  using field_get_prop by blast

lemma field_type_truthy: "field g ''type'' \<noteq> JUndefined \<Longrightarrow> truthy g"
  by (cases g) (auto simp: field_def)

lemma get_prop_field: "truthy g \<Longrightarrow> get_prop g k = Inr (field g k)"
  by (cases g) (auto simp: field_def)

lemma isArray_cases: "isArray c \<Longrightarrow> \<exists>xs. c = JArr xs"
  by (cases c) auto

lemma wf_geometry_extract:
  assumes "wf_geometry g"
  shows "\<exists>c. extractCoordsFromGeometry g = Inr (JArr c)"
proof -
  from assms have nt: "field g ''type'' \<noteq> JUndefined" by (auto simp: wf_geometry_def split: if_splits)
  note tr = field_type_truthy[OF nt]
  note ty = get_prop_field[OF tr, of "''type''"]
  note co = get_prop_field[OF tr, of "''coordinates''"]
  show ?thesis
  proof (cases "field g ''type'' = JStr ''LineString'' \<or> field g ''type'' = JStr ''MultiLineString''")
    case True
    with assms obtain xs where xs: "field g ''coordinates'' = JArr xs"
      using isArray_cases by (auto simp: wf_geometry_def)
    from True tr ty co xs show ?thesis
      by (auto simp: extractCoordsFromGeometry_def bind_err_def js_or_def)
  next
    case False
    with tr ty show ?thesis by (auto simp: extractCoordsFromGeometry_def bind_err_def)
  qed
qed

lemma wf_feature_coords:
  assumes "wf_feature f"
  shows "\<exists>c. feature_coords f = Inr (JArr c)"
proof -
  from assms have "field f ''type'' \<noteq> JUndefined" by (auto simp: wf_feature_def)
  note tr = field_type_truthy[OF this]
  note ge = get_prop_field[OF tr, of "''geometry''"]
  from assms consider "field f ''geometry'' = JNull" | "wf_geometry (field f ''geometry'')"
    by (auto simp: wf_feature_def)
  then show ?thesis
  proof cases
    case 1
    with ge show ?thesis by (simp add: feature_coords_def bind_err_def extractCoordsFromGeometry_def)
  next
    case 2
    from wf_geometry_extract[OF 2] ge show ?thesis by (simp add: feature_coords_def bind_err_def)
  qed
qed

lemma wf_features_coords:
  "list_all wf_feature fs \<Longrightarrow> \<exists>cs. map feature_coords fs = map (\<lambda>c. Inr (JArr c)) cs"
proof (induction fs)
  case Nil
  then show ?case by simp
next
  case (Cons f fs)
  from Cons.prems wf_feature_coords obtain c where c: "feature_coords f = Inr (JArr c)" by auto
  from Cons obtain cs where cs: "map feature_coords fs = map (\<lambda>c. Inr (JArr c)) cs" by auto
  from c cs have "map feature_coords (f # fs) = map (\<lambda>c. Inr (JArr c)) (c # cs)" by simp
  then show ?case by (rule exI[of _ "c # cs"])
qed

lemma wf_geojson_extract:
  assumes "wf_geojson g"
  shows "\<exists>c. extractCoords g = Inr (JArr c)"
proof (cases "field g ''type'' = JStr ''FeatureCollection''")
  case True
  then have ty: "get_prop g ''type'' = Inr (JStr ''FeatureCollection'')"
    by (simp add: field_get_prop)
  from True assms have ia: "isArray (field g ''features'')"
    and wf': "list_all wf_feature (day_files (field g ''features''))"
    by (simp_all add: wf_geojson_def)
  from isArray_cases[OF ia] obtain fs where fs: "field g ''features'' = JArr fs" by blast
  with wf' have wf: "list_all wf_feature fs" by simp
  from fs have fe: "get_prop g ''features'' = Inr (JArr fs)" by (simp add: field_get_prop)
  from wf_features_coords[OF wf] obtain cs
    where "map feature_coords fs = map (\<lambda>c. Inr (JArr c)) cs" by blast
  from extract_collection[OF ty fe this] show ?thesis by blast
next
  case nfc: False
  show ?thesis
  proof (cases "field g ''type'' = JStr ''Feature''")
    case True
    then have ty: "get_prop g ''type'' = Inr (JStr ''Feature'')" by (simp add: field_get_prop)
    from True nfc assms have "wf_feature g" by (simp add: wf_geojson_def)
    from wf_feature_coords[OF this] extract_feature[OF ty] show ?thesis by simp
  next
    case False
    with nfc assms have wg: "wf_geometry g" by (simp add: wf_geojson_def)
    then have nt: "field g ''type'' \<noteq> JUndefined" by (auto simp: wf_geometry_def split: if_splits)
    from extract_bare[OF field_type_get[OF nt] nfc False] wf_geometry_extract[OF wg]
    show ?thesis by simp
  qed
qed

lemma sample_documents_wf: "wf_geojson sample_line \<and> wf_geojson sample_collection \<and> wf_geojson mixed_collection"
  by (simp add: wf_geojson_def wf_feature_def wf_geometry_def field_def sample_line_def
      sample_collection_def mixed_collection_def mixed_features_def)

end
